theory Spec2Isabelle
  imports Main
begin

section \<open>Go values shared by the jws and jwe packages\<close>

text \<open>
  A byte slice (\<^verbatim>\<open>[]byte\<close>, \<^verbatim>\<open>buffer.Buffer\<close>) is a list of characters. Where the
  source tests a slice or a pointer against \<^verbatim>\<open>nil\<close> the model uses an option, with
  \<open>None\<close> for \<^verbatim>\<open>nil\<close>. An \<^verbatim>\<open>error\<close> is a value: \<open>ErrorString\<close> is
  \<^verbatim>\<open>errors.New\<close> / \<^verbatim>\<open>fmt.Errorf\<close> with its message, \<open>NilDereference\<close> is the run-time
  panic of a field read through a nil pointer.
\<close>

type_synonym bytes = string

datatype error =
  ErrInvalidHeaderValue
  | ErrorString string
  | NilDereference

text \<open>\<^verbatim>\<open>*url.URL\<close>, \<^verbatim>\<open>jwk.Key\<close> and \<^verbatim>\<open>*jwk.EcdsaPublicKey\<close> are only stored, copied and
  compared with nil by the code below; each is a tagged text.\<close>

datatype url = URL string

datatype jwk_Key = JwkKey string

datatype EcdsaPublicKey = EcdsaPublicKey string

text \<open>
  \<^verbatim>\<open>interface{}\<close>: a value together with its dynamic type. A type assertion
  \<^verbatim>\<open>value.(T)\<close> succeeds exactly on the constructor of \<open>T\<close>; the named string types of
  package jwa are types of their own, as in Go.
\<close>

datatype iface =
  INil
  | IBool bool
  | INumber int
  | IString string
  | ISignatureAlgorithm string
  | IKeyEncryptionAlgorithm string
  | IContentEncryptionAlgorithm string
  | IBuffer bytes
  | IBytes bytes
  | IStringSlice "string list option"
  | IEcdsaPublicKey "EcdsaPublicKey option"
  | IArray "iface list"
  | IObject "(string \<times> iface) list"

text \<open>Modelled from the spec: \<^verbatim>\<open>jwa.NoSignature\<close>, the "no signature" sentinel algorithm, and
  \<^verbatim>\<open>jwa.Deflate\<close>, the Deflate compression indicator (package jwa is not among the sources;
  the identifiers are the JOSE registry's).\<close>

definition NoSignature :: string where
  "NoSignature = ''none''"

definition Deflate :: string where
  "Deflate = ''DEF''"

section \<open>Package jws: the header\<close>

text \<open>
  \<^verbatim>\<open>jws/interface.go\<close>, \<^verbatim>\<open>EssentialHeader\<close> and \<^verbatim>\<open>Header\<close>. A \<open>jws_Header\<close> is a header as
  \<^verbatim>\<open>NewHeader\<close> and \<^verbatim>\<open>UnmarshalJSON\<close> build it: the embedded \<^verbatim>\<open>*EssentialHeader\<close> and the
  \<^verbatim>\<open>PrivateParams\<close> map are allocated. A \<^verbatim>\<open>*Header\<close> that may be nil is a
  \<open>jws_Header option\<close>.
\<close>

record jws_EssentialHeader =
  jws_Algorithm :: string
  jws_ContentType :: string
  jws_Critical :: "string list option"
  jws_Jwk :: "jwk_Key option"
  jws_JwkSetURL :: "url option"
  jws_KeyID :: string
  jws_Type :: string
  jws_X509Url :: "url option"
  jws_X509CertChain :: "string list option"
  jws_X509CertThumbprint :: string
  jws_X509CertThumbprintS256 :: string

record jws_Header =
  jws_Essential :: jws_EssentialHeader
  jws_PrivateParams :: "string \<rightharpoonup> iface"

definition jws_zero_EssentialHeader :: jws_EssentialHeader where
  "jws_zero_EssentialHeader =
     \<lparr>jws_Algorithm = '''', jws_ContentType = '''', jws_Critical = None, jws_Jwk = None,
      jws_JwkSetURL = None, jws_KeyID = '''', jws_Type = '''', jws_X509Url = None,
      jws_X509CertChain = None, jws_X509CertThumbprint = '''',
      jws_X509CertThumbprintS256 = ''''\<rparr>"

definition jws_NewHeader :: jws_Header where
  "jws_NewHeader = \<lparr>jws_Essential = jws_zero_EssentialHeader, jws_PrivateParams = Map.empty\<rparr>"

text \<open>
  \<^verbatim>\<open>func (h *Header) Set(key string, value interface{}) error\<close> writes through its
  receiver: the model returns the header after the call together with the error
  (\<open>None\<close> for nil). \<open>parse\<close> is \<^verbatim>\<open>url.Parse\<close>.
\<close>

text \<open>The case bodies of \<^verbatim>\<open>Header.Set\<close> that occur more than once: a string
  (\<^verbatim>\<open>v, ok := value.(string); if !ok { return ErrInvalidHeaderValue }; h.F = v\<close>), a
  string slice, and a text handed to \<^verbatim>\<open>url.Parse\<close>.\<close>

definition jws_set_string ::
  "(string \<Rightarrow> jws_EssentialHeader \<Rightarrow> jws_EssentialHeader) \<Rightarrow> jws_Header \<Rightarrow> iface
     \<Rightarrow> jws_Header \<times> error option" where
  "jws_set_string assign h v =
     (case v of
        IString s \<Rightarrow> (h\<lparr>jws_Essential := assign s (jws_Essential h)\<rparr>, None)
      | _ \<Rightarrow> (h, Some ErrInvalidHeaderValue))"

definition jws_set_strings ::
  "(string list option \<Rightarrow> jws_EssentialHeader \<Rightarrow> jws_EssentialHeader) \<Rightarrow> jws_Header \<Rightarrow> iface
     \<Rightarrow> jws_Header \<times> error option" where
  "jws_set_strings assign h v =
     (case v of
        IStringSlice xs \<Rightarrow> (h\<lparr>jws_Essential := assign xs (jws_Essential h)\<rparr>, None)
      | _ \<Rightarrow> (h, Some ErrInvalidHeaderValue))"

definition jws_set_url ::
  "(string \<Rightarrow> error + url) \<Rightarrow> (url option \<Rightarrow> jws_EssentialHeader \<Rightarrow> jws_EssentialHeader)
     \<Rightarrow> jws_Header \<Rightarrow> iface \<Rightarrow> jws_Header \<times> error option" where
  "jws_set_url parse assign h v =
     (case v of
        IString s \<Rightarrow>
          (case parse s of
             Inl err \<Rightarrow> (h, Some ErrInvalidHeaderValue)
           | Inr u \<Rightarrow> (h\<lparr>jws_Essential := assign (Some u) (jws_Essential h)\<rparr>, None))
      | _ \<Rightarrow> (h, Some ErrInvalidHeaderValue))"

definition jws_Set ::
  "(string \<Rightarrow> error + url) \<Rightarrow> jws_Header \<Rightarrow> string \<Rightarrow> iface \<Rightarrow> jws_Header \<times> error option" where
  "jws_Set parse h key v =
     (if key = ''alg'' then
        (case v of
           IString s \<Rightarrow> (h\<lparr>jws_Essential := (jws_Essential h)\<lparr>jws_Algorithm := s\<rparr>\<rparr>, None)
         | ISignatureAlgorithm a \<Rightarrow>
             (h\<lparr>jws_Essential := (jws_Essential h)\<lparr>jws_Algorithm := a\<rparr>\<rparr>, None)
         | _ \<Rightarrow> (h, Some ErrInvalidHeaderValue))
      else if key = ''cty'' then jws_set_string (\<lambda>s e. e\<lparr>jws_ContentType := s\<rparr>) h v
      else if key = ''kid'' then jws_set_string (\<lambda>s e. e\<lparr>jws_KeyID := s\<rparr>) h v
      else if key = ''typ'' then jws_set_string (\<lambda>s e. e\<lparr>jws_Type := s\<rparr>) h v
      else if key = ''x5t'' then jws_set_string (\<lambda>s e. e\<lparr>jws_X509CertThumbprint := s\<rparr>) h v
      else if key = ''x5t#256'' then
        jws_set_string (\<lambda>s e. e\<lparr>jws_X509CertThumbprintS256 := s\<rparr>) h v
      else if key = ''x5c'' then jws_set_strings (\<lambda>xs e. e\<lparr>jws_X509CertChain := xs\<rparr>) h v
      else if key = ''crit'' then jws_set_strings (\<lambda>xs e. e\<lparr>jws_Critical := xs\<rparr>) h v
      else if key = ''jku'' then jws_set_url parse (\<lambda>u e. e\<lparr>jws_JwkSetURL := u\<rparr>) h v
      else if key = ''x5u'' then jws_set_url parse (\<lambda>u e. e\<lparr>jws_X509Url := u\<rparr>) h v
      else (h\<lparr>jws_PrivateParams := (jws_PrivateParams h)(key \<mapsto> v)\<rparr>, None))"

text \<open>
  \<^verbatim>\<open>func (h1 *EssentialHeader) Merge(h2 *EssentialHeader)\<close> and
  \<^verbatim>\<open>func (h1 *EssentialHeader) Copy(h2 *EssentialHeader)\<close>: the receiver after the call.
  The nine assignments are the source's nine, in its order.
\<close>

definition jws_EssentialHeader_Merge ::
  "jws_EssentialHeader \<Rightarrow> jws_EssentialHeader \<Rightarrow> jws_EssentialHeader" where
  "jws_EssentialHeader_Merge h1 h2 =
     (let h1 = (if jws_Algorithm h2 \<noteq> '''' then h1\<lparr>jws_Algorithm := jws_Algorithm h2\<rparr> else h1);
          h1 = (if jws_ContentType h2 \<noteq> '''' then h1\<lparr>jws_ContentType := jws_ContentType h2\<rparr>
                else h1);
          h1 = (if jws_JwkSetURL h2 \<noteq> None then h1\<lparr>jws_JwkSetURL := jws_JwkSetURL h2\<rparr> else h1);
          h1 = (if jws_KeyID h2 \<noteq> '''' then h1\<lparr>jws_KeyID := jws_KeyID h2\<rparr> else h1);
          h1 = (if jws_Type h2 \<noteq> '''' then h1\<lparr>jws_Type := jws_Type h2\<rparr> else h1);
          h1 = (if jws_X509Url h2 \<noteq> None then h1\<lparr>jws_X509Url := jws_X509Url h2\<rparr> else h1);
          h1 = (if jws_X509CertChain h2 \<noteq> None
                then h1\<lparr>jws_X509CertChain := jws_X509CertChain h2\<rparr> else h1);
          h1 = (if jws_X509CertThumbprint h2 \<noteq> ''''
                then h1\<lparr>jws_X509CertThumbprint := jws_X509CertThumbprint h2\<rparr> else h1);
          h1 = (if jws_X509CertThumbprintS256 h2 \<noteq> ''''
                then h1\<lparr>jws_X509CertThumbprintS256 := jws_X509CertThumbprintS256 h2\<rparr> else h1)
      in h1)"

definition jws_EssentialHeader_Copy ::
  "jws_EssentialHeader \<Rightarrow> jws_EssentialHeader \<Rightarrow> jws_EssentialHeader" where
  "jws_EssentialHeader_Copy h1 h2 =
     h1\<lparr>jws_Algorithm := jws_Algorithm h2,
        jws_ContentType := jws_ContentType h2,
        jws_JwkSetURL := jws_JwkSetURL h2,
        jws_KeyID := jws_KeyID h2,
        jws_Type := jws_Type h2,
        jws_X509Url := jws_X509Url h2,
        jws_X509CertChain := jws_X509CertChain h2,
        jws_X509CertThumbprint := jws_X509CertThumbprint h2,
        jws_X509CertThumbprintS256 := jws_X509CertThumbprintS256 h2\<rparr>"

text \<open>
  \<^verbatim>\<open>func (h1 *Header) Copy(h2 *Header) error\<close>: the destination after the call and the
  error. The loop over \<^verbatim>\<open>h2.PrivateParams\<close> stores every entry of \<open>h2\<close> into the map of
  \<open>h1\<close>, which is \<open>++\<close> on maps.
\<close>

definition jws_Header_Copy ::
  "jws_Header option \<Rightarrow> jws_Header option \<Rightarrow> jws_Header option \<times> error option" where
  "jws_Header_Copy h1 h2 =
     (case h1 of
        None \<Rightarrow> (None, Some (ErrorString ''copy destination is nil''))
      | Some d \<Rightarrow>
          (case h2 of
             None \<Rightarrow> (Some d, Some (ErrorString ''copy target is nil''))
           | Some s \<Rightarrow>
               (Some \<lparr>jws_Essential = jws_EssentialHeader_Copy (jws_Essential d) (jws_Essential s),
                      jws_PrivateParams = jws_PrivateParams d ++ jws_PrivateParams s\<rparr>,
                None)))"

text \<open>
  \<^verbatim>\<open>func (h1 *Header) Merge(h2 *Header) (*Header, error)\<close>: the fresh header \<open>h3\<close>, or the
  error. Every write of the source goes through \<open>h3\<close>.
\<close>

definition jws_Header_Merge :: "jws_Header option \<Rightarrow> jws_Header option \<Rightarrow> error + jws_Header" where
  "jws_Header_Merge h1 h2 =
     (case h2 of
        None \<Rightarrow> Inl (ErrorString ''merge target is nil'')
      | Some b \<Rightarrow>
          (case jws_Header_Copy (Some jws_NewHeader) h1 of
             (_, Some err) \<Rightarrow> Inl err
           | (None, None) \<Rightarrow> Inl NilDereference
           | (Some h3, None) \<Rightarrow>
               Inr \<lparr>jws_Essential = jws_EssentialHeader_Merge (jws_Essential h3) (jws_Essential b),
                    jws_PrivateParams = jws_PrivateParams h3 ++ jws_PrivateParams b\<rparr>))"

text \<open>
  \<^verbatim>\<open>func (h *EssentialHeader) Construct(m map[string]interface{}) error\<close>. \<open>getString\<close> and
  \<open>getStringSlice\<close> are \<^verbatim>\<open>emap.Hmap.GetString\<close> and \<^verbatim>\<open>emap.Hmap.GetStringSlice\<close>, each
  returning Go's pair of a value and an error. The result is the receiver after the call
  and the returned error, which is always nil.
\<close>

definition jws_Construct ::
  "((string \<rightharpoonup> iface) \<Rightarrow> string \<Rightarrow> string \<times> error option)
     \<Rightarrow> ((string \<rightharpoonup> iface) \<Rightarrow> string \<Rightarrow> string list option \<times> error option)
     \<Rightarrow> (string \<Rightarrow> error + url)
     \<Rightarrow> jws_EssentialHeader \<Rightarrow> (string \<rightharpoonup> iface) \<Rightarrow> jws_EssentialHeader \<times> error option" where
  "jws_Construct getString getStringSlice parse h m =
     (let h = (case getString m ''alg'' of
                 (alg, None) \<Rightarrow> h\<lparr>jws_Algorithm := alg\<rparr>
               | (_, Some err) \<Rightarrow> h);
          h = (if jws_Algorithm h = '''' then h\<lparr>jws_Algorithm := NoSignature\<rparr> else h);
          h = h\<lparr>jws_ContentType := fst (getString m ''cty'')\<rparr>;
          h = h\<lparr>jws_KeyID := fst (getString m ''kid'')\<rparr>;
          h = h\<lparr>jws_Type := fst (getString m ''typ'')\<rparr>;
          h = h\<lparr>jws_X509CertThumbprint := fst (getString m ''x5t'')\<rparr>;
          h = h\<lparr>jws_X509CertThumbprintS256 := fst (getString m ''x5t#256'')\<rparr>;
          h = (case getStringSlice m ''crit'' of
                 (v, Some err) \<Rightarrow> h\<lparr>jws_Critical := v\<rparr>
               | (_, None) \<Rightarrow> h);
          h = (case getStringSlice m ''x5c'' of
                 (v, Some err) \<Rightarrow> h\<lparr>jws_X509CertChain := v\<rparr>
               | (_, None) \<Rightarrow> h);
          h = (case getString m ''jku'' of
                 (v, None) \<Rightarrow>
                   (case parse v of Inr u \<Rightarrow> h\<lparr>jws_JwkSetURL := Some u\<rparr> | Inl err \<Rightarrow> h)
               | (_, Some err) \<Rightarrow> h);
          h = (case getString m ''x5u'' of
                 (v, None) \<Rightarrow>
                   (case parse v of Inr u \<Rightarrow> h\<lparr>jws_X509Url := Some u\<rparr> | Inl err \<Rightarrow> h)
               | (_, Some err) \<Rightarrow> h)
      in (h, None))"

section \<open>Package jwe: the header\<close>

text \<open>
  The declaration of the jwe \<^verbatim>\<open>EssentialHeader\<close> (jwe/interface.go) is not among the
  sources: its sixteen fields are the ones \<^verbatim>\<open>EssentialHeader.Copy\<close> assigns, typed by the
  type assertions of \<^verbatim>\<open>Header.Set\<close> and the emptiness tests of \<^verbatim>\<open>EssentialHeader.Merge\<close>.
  A \<^verbatim>\<open>buffer.Buffer\<close> is tested with \<^verbatim>\<open>Len()\<close> only, so it is a plain byte list.
\<close>

record jwe_EssentialHeader =
  jwe_AgreementPartyUInfo :: bytes
  jwe_AgreementPartyVInfo :: bytes
  jwe_Algorithm :: string
  jwe_ContentEncryption :: string
  jwe_ContentType :: string
  jwe_Compression :: string
  jwe_Critical :: "string list option"
  jwe_EphemeralPublicKey :: "EcdsaPublicKey option"
  jwe_Jwk :: "jwk_Key option"
  jwe_JwkSetURL :: "url option"
  jwe_KeyID :: string
  jwe_Type :: string
  jwe_X509Url :: "url option"
  jwe_X509CertChain :: "string list option"
  jwe_X509CertThumbprint :: string
  jwe_X509CertThumbprintS256 :: string

record jwe_Header =
  jwe_Essential :: jwe_EssentialHeader
  jwe_PrivateParams :: "string \<rightharpoonup> iface"

definition jwe_zero_EssentialHeader :: jwe_EssentialHeader where
  "jwe_zero_EssentialHeader =
     \<lparr>jwe_AgreementPartyUInfo = [], jwe_AgreementPartyVInfo = [], jwe_Algorithm = '''',
      jwe_ContentEncryption = '''', jwe_ContentType = '''', jwe_Compression = '''',
      jwe_Critical = None, jwe_EphemeralPublicKey = None, jwe_Jwk = None, jwe_JwkSetURL = None,
      jwe_KeyID = '''', jwe_Type = '''', jwe_X509Url = None, jwe_X509CertChain = None,
      jwe_X509CertThumbprint = '''', jwe_X509CertThumbprintS256 = ''''\<rparr>"

definition jwe_NewHeader :: jwe_Header where
  "jwe_NewHeader = \<lparr>jwe_Essential = jwe_zero_EssentialHeader, jwe_PrivateParams = Map.empty\<rparr>"

text \<open>The case bodies of \<^verbatim>\<open>Header.Set\<close> that occur more than once: a string, a string
  slice, a URL text, and the three-way type switch of \<^verbatim>\<open>apu\<close> and \<^verbatim>\<open>apv\<close>.\<close>

definition jwe_set_string ::
  "(string \<Rightarrow> jwe_EssentialHeader \<Rightarrow> jwe_EssentialHeader) \<Rightarrow> jwe_Header \<Rightarrow> iface
     \<Rightarrow> jwe_Header \<times> error option" where
  "jwe_set_string assign h v =
     (case v of
        IString s \<Rightarrow> (h\<lparr>jwe_Essential := assign s (jwe_Essential h)\<rparr>, None)
      | _ \<Rightarrow> (h, Some ErrInvalidHeaderValue))"

definition jwe_set_strings ::
  "(string list option \<Rightarrow> jwe_EssentialHeader \<Rightarrow> jwe_EssentialHeader) \<Rightarrow> jwe_Header \<Rightarrow> iface
     \<Rightarrow> jwe_Header \<times> error option" where
  "jwe_set_strings assign h v =
     (case v of
        IStringSlice xs \<Rightarrow> (h\<lparr>jwe_Essential := assign xs (jwe_Essential h)\<rparr>, None)
      | _ \<Rightarrow> (h, Some ErrInvalidHeaderValue))"

definition jwe_set_url ::
  "(string \<Rightarrow> error + url) \<Rightarrow> (url option \<Rightarrow> jwe_EssentialHeader \<Rightarrow> jwe_EssentialHeader)
     \<Rightarrow> jwe_Header \<Rightarrow> iface \<Rightarrow> jwe_Header \<times> error option" where
  "jwe_set_url parse assign h v =
     (case v of
        IString s \<Rightarrow>
          (case parse s of
             Inl err \<Rightarrow> (h, Some ErrInvalidHeaderValue)
           | Inr u \<Rightarrow> (h\<lparr>jwe_Essential := assign (Some u) (jwe_Essential h)\<rparr>, None))
      | _ \<Rightarrow> (h, Some ErrInvalidHeaderValue))"

definition jwe_set_buffer ::
  "(bytes \<Rightarrow> jwe_EssentialHeader \<Rightarrow> jwe_EssentialHeader) \<Rightarrow> jwe_Header \<Rightarrow> iface
     \<Rightarrow> jwe_Header \<times> error option" where
  "jwe_set_buffer assign h v =
     (case v of
        IBuffer b \<Rightarrow> (h\<lparr>jwe_Essential := assign b (jwe_Essential h)\<rparr>, None)
      | IBytes b \<Rightarrow> (h\<lparr>jwe_Essential := assign b (jwe_Essential h)\<rparr>, None)
      | IString s \<Rightarrow> (h\<lparr>jwe_Essential := assign s (jwe_Essential h)\<rparr>, None)
      | _ \<Rightarrow> (h, Some ErrInvalidHeaderValue))"

definition jwe_Set ::
  "(string \<Rightarrow> error + url) \<Rightarrow> jwe_Header \<Rightarrow> string \<Rightarrow> iface \<Rightarrow> jwe_Header \<times> error option" where
  "jwe_Set parse h key v =
     (if key = ''alg'' then
        (case v of
           IString s \<Rightarrow> (h\<lparr>jwe_Essential := (jwe_Essential h)\<lparr>jwe_Algorithm := s\<rparr>\<rparr>, None)
         | IKeyEncryptionAlgorithm a \<Rightarrow>
             (h\<lparr>jwe_Essential := (jwe_Essential h)\<lparr>jwe_Algorithm := a\<rparr>\<rparr>, None)
         | _ \<Rightarrow> (h, Some ErrInvalidHeaderValue))
      else if key = ''apu'' then jwe_set_buffer (\<lambda>b e. e\<lparr>jwe_AgreementPartyUInfo := b\<rparr>) h v
      else if key = ''apv'' then jwe_set_buffer (\<lambda>b e. e\<lparr>jwe_AgreementPartyVInfo := b\<rparr>) h v
      else if key = ''enc'' then
        (case v of
           IString s \<Rightarrow> (h\<lparr>jwe_Essential := (jwe_Essential h)\<lparr>jwe_ContentEncryption := s\<rparr>\<rparr>, None)
         | IContentEncryptionAlgorithm a \<Rightarrow>
             (h\<lparr>jwe_Essential := (jwe_Essential h)\<lparr>jwe_ContentEncryption := a\<rparr>\<rparr>, None)
         | _ \<Rightarrow> (h, Some ErrInvalidHeaderValue))
      else if key = ''cty'' then jwe_set_string (\<lambda>s e. e\<lparr>jwe_ContentType := s\<rparr>) h v
      else if key = ''epk'' then
        (case v of
           IEcdsaPublicKey k \<Rightarrow>
             (h\<lparr>jwe_Essential := (jwe_Essential h)\<lparr>jwe_EphemeralPublicKey := k\<rparr>\<rparr>, None)
         | _ \<Rightarrow> (h, Some ErrInvalidHeaderValue))
      else if key = ''kid'' then jwe_set_string (\<lambda>s e. e\<lparr>jwe_KeyID := s\<rparr>) h v
      else if key = ''typ'' then jwe_set_string (\<lambda>s e. e\<lparr>jwe_Type := s\<rparr>) h v
      else if key = ''x5t'' then jwe_set_string (\<lambda>s e. e\<lparr>jwe_X509CertThumbprint := s\<rparr>) h v
      else if key = ''x5t#256'' then
        jwe_set_string (\<lambda>s e. e\<lparr>jwe_X509CertThumbprintS256 := s\<rparr>) h v
      else if key = ''x5c'' then jwe_set_strings (\<lambda>xs e. e\<lparr>jwe_X509CertChain := xs\<rparr>) h v
      else if key = ''crit'' then jwe_set_strings (\<lambda>xs e. e\<lparr>jwe_Critical := xs\<rparr>) h v
      else if key = ''jku'' then jwe_set_url parse (\<lambda>u e. e\<lparr>jwe_JwkSetURL := u\<rparr>) h v
      else if key = ''x5u'' then jwe_set_url parse (\<lambda>u e. e\<lparr>jwe_X509Url := u\<rparr>) h v
      else (h\<lparr>jwe_PrivateParams := (jwe_PrivateParams h)(key \<mapsto> v)\<rparr>, None))"

text \<open>\<^verbatim>\<open>EssentialHeader.Merge\<close> and \<^verbatim>\<open>EssentialHeader.Copy\<close> of package jwe: sixteen
  assignments each, in the order of the source.\<close>

definition jwe_EssentialHeader_Merge ::
  "jwe_EssentialHeader \<Rightarrow> jwe_EssentialHeader \<Rightarrow> jwe_EssentialHeader" where
  "jwe_EssentialHeader_Merge h1 h2 =
     (let h1 = (if length (jwe_AgreementPartyUInfo h2) \<noteq> 0
                then h1\<lparr>jwe_AgreementPartyUInfo := jwe_AgreementPartyUInfo h2\<rparr> else h1);
          h1 = (if length (jwe_AgreementPartyVInfo h2) \<noteq> 0
                then h1\<lparr>jwe_AgreementPartyVInfo := jwe_AgreementPartyVInfo h2\<rparr> else h1);
          h1 = (if jwe_Algorithm h2 \<noteq> '''' then h1\<lparr>jwe_Algorithm := jwe_Algorithm h2\<rparr> else h1);
          h1 = (if jwe_ContentEncryption h2 \<noteq> ''''
                then h1\<lparr>jwe_ContentEncryption := jwe_ContentEncryption h2\<rparr> else h1);
          h1 = (if jwe_ContentType h2 \<noteq> '''' then h1\<lparr>jwe_ContentType := jwe_ContentType h2\<rparr>
                else h1);
          h1 = (if jwe_Compression h2 \<noteq> '''' then h1\<lparr>jwe_Compression := jwe_Compression h2\<rparr>
                else h1);
          h1 = (if jwe_Critical h2 \<noteq> None then h1\<lparr>jwe_Critical := jwe_Critical h2\<rparr> else h1);
          h1 = (if jwe_EphemeralPublicKey h2 \<noteq> None
                then h1\<lparr>jwe_EphemeralPublicKey := jwe_EphemeralPublicKey h2\<rparr> else h1);
          h1 = (if jwe_Jwk h2 \<noteq> None then h1\<lparr>jwe_Jwk := jwe_Jwk h2\<rparr> else h1);
          h1 = (if jwe_JwkSetURL h2 \<noteq> None then h1\<lparr>jwe_JwkSetURL := jwe_JwkSetURL h2\<rparr> else h1);
          h1 = (if jwe_KeyID h2 \<noteq> '''' then h1\<lparr>jwe_KeyID := jwe_KeyID h2\<rparr> else h1);
          h1 = (if jwe_Type h2 \<noteq> '''' then h1\<lparr>jwe_Type := jwe_Type h2\<rparr> else h1);
          h1 = (if jwe_X509Url h2 \<noteq> None then h1\<lparr>jwe_X509Url := jwe_X509Url h2\<rparr> else h1);
          h1 = (if jwe_X509CertChain h2 \<noteq> None
                then h1\<lparr>jwe_X509CertChain := jwe_X509CertChain h2\<rparr> else h1);
          h1 = (if jwe_X509CertThumbprint h2 \<noteq> ''''
                then h1\<lparr>jwe_X509CertThumbprint := jwe_X509CertThumbprint h2\<rparr> else h1);
          h1 = (if jwe_X509CertThumbprintS256 h2 \<noteq> ''''
                then h1\<lparr>jwe_X509CertThumbprintS256 := jwe_X509CertThumbprintS256 h2\<rparr> else h1)
      in h1)"

definition jwe_EssentialHeader_Copy ::
  "jwe_EssentialHeader \<Rightarrow> jwe_EssentialHeader \<Rightarrow> jwe_EssentialHeader" where
  "jwe_EssentialHeader_Copy h1 h2 =
     h1\<lparr>jwe_AgreementPartyUInfo := jwe_AgreementPartyUInfo h2,
        jwe_AgreementPartyVInfo := jwe_AgreementPartyVInfo h2,
        jwe_Algorithm := jwe_Algorithm h2,
        jwe_ContentEncryption := jwe_ContentEncryption h2,
        jwe_ContentType := jwe_ContentType h2,
        jwe_Compression := jwe_Compression h2,
        jwe_Critical := jwe_Critical h2,
        jwe_EphemeralPublicKey := jwe_EphemeralPublicKey h2,
        jwe_Jwk := jwe_Jwk h2,
        jwe_JwkSetURL := jwe_JwkSetURL h2,
        jwe_KeyID := jwe_KeyID h2,
        jwe_Type := jwe_Type h2,
        jwe_X509Url := jwe_X509Url h2,
        jwe_X509CertChain := jwe_X509CertChain h2,
        jwe_X509CertThumbprint := jwe_X509CertThumbprint h2,
        jwe_X509CertThumbprintS256 := jwe_X509CertThumbprintS256 h2\<rparr>"

definition jwe_Header_Copy ::
  "jwe_Header option \<Rightarrow> jwe_Header option \<Rightarrow> jwe_Header option \<times> error option" where
  "jwe_Header_Copy h1 h2 =
     (case h1 of
        None \<Rightarrow> (None, Some (ErrorString ''copy destination is nil''))
      | Some d \<Rightarrow>
          (case h2 of
             None \<Rightarrow> (Some d, Some (ErrorString ''copy target is nil''))
           | Some s \<Rightarrow>
               (Some \<lparr>jwe_Essential = jwe_EssentialHeader_Copy (jwe_Essential d) (jwe_Essential s),
                      jwe_PrivateParams = jwe_PrivateParams d ++ jwe_PrivateParams s\<rparr>,
                None)))"

definition jwe_Header_Merge :: "jwe_Header option \<Rightarrow> jwe_Header option \<Rightarrow> error + jwe_Header" where
  "jwe_Header_Merge h1 h2 =
     (case h2 of
        None \<Rightarrow> Inl (ErrorString ''merge target is nil'')
      | Some b \<Rightarrow>
          (case jwe_Header_Copy (Some jwe_NewHeader) h1 of
             (_, Some err) \<Rightarrow> Inl err
           | (None, None) \<Rightarrow> Inl NilDereference
           | (Some h3, None) \<Rightarrow>
               Inr \<lparr>jwe_Essential = jwe_EssentialHeader_Merge (jwe_Essential h3) (jwe_Essential b),
                    jwe_PrivateParams = jwe_PrivateParams h3 ++ jwe_PrivateParams b\<rparr>))"

section \<open>Outcomes of a call that writes through its receiver\<close>

text \<open>The two outcomes a \<^verbatim>\<open>Set\<close> on the header \<open>h\<close> may have: the error
  \<^verbatim>\<open>ErrInvalidHeaderValue\<close> with \<open>h\<close> as it was, or no error.\<close>

definition set_ok :: "'h \<Rightarrow> 'h \<times> error option \<Rightarrow> bool" where
  "set_ok h r = (r = (h, Some ErrInvalidHeaderValue) \<or> snd r = None)"

section \<open>The map helpers of package emap\<close>

text \<open>
  Modelled from the spec: \<^verbatim>\<open>emap.Hmap.GetString\<close> and \<^verbatim>\<open>emap.Hmap.GetStringSlice\<close> (package
  emap is not among the sources). Each looks the key up in the generic JSON map and returns
  the value with a nil error when it has the wanted type, and the zero value with an error
  when the key is absent or its value has another type. \<^verbatim>\<open>Construct\<close> takes the two
  helpers as parameters; these definitions are the instance the example below runs on.
\<close>

definition Hmap_GetString :: "(string \<rightharpoonup> iface) \<Rightarrow> string \<Rightarrow> string \<times> error option" where
  "Hmap_GetString m name =
     (case m name of
        None \<Rightarrow> ('''', Some (ErrorString ''non-existent key''))
      | Some (IString s) \<Rightarrow> (s, None)
      | Some _ \<Rightarrow> ('''', Some (ErrorString ''invalid field type'')))"

definition Hmap_GetStringSlice ::
  "(string \<rightharpoonup> iface) \<Rightarrow> string \<Rightarrow> string list option \<times> error option" where
  "Hmap_GetStringSlice m name =
     (case m name of
        None \<Rightarrow> (None, Some (ErrorString ''non-existent key''))
      | Some (IStringSlice xs) \<Rightarrow> (xs, None)
      | Some _ \<Rightarrow> (None, Some (ErrorString ''invalid field type'')))"

text \<open>A decoded header object that carries well-formed \<^verbatim>\<open>crit\<close> and \<^verbatim>\<open>x5c\<close> lists and a
  key id, and no \<^verbatim>\<open>alg\<close>.\<close>

definition Construct_example :: "string \<rightharpoonup> iface" where
  "Construct_example =
     [''crit'' \<mapsto> IStringSlice (Some [''exp'']),
      ''x5c'' \<mapsto> IStringSlice (Some [''MIIB'']),
      ''kid'' \<mapsto> IString ''k1'']"

section \<open>Package jwe: messages and Decrypt\<close>

text \<open>
  The declarations of \<^verbatim>\<open>EncodedHeader\<close>, \<^verbatim>\<open>Recipient\<close> and \<^verbatim>\<open>Message\<close> (jwe/interface.go)
  are not among the sources; the fields are the ones \<^verbatim>\<open>NewEncodedHeader\<close>,
  \<^verbatim>\<open>NewRecipient\<close>, \<^verbatim>\<open>NewMessage\<close> and \<^verbatim>\<open>Decrypt\<close> use. Modelled from the spec: the
  \<^verbatim>\<open>Source\<close> field of the jwe Encoded Header, the decoded bytes captured when the header
  was parsed; no function of jwe/message.go reads or writes it.
\<close>

record jwe_EncodedHeader =
  jwe_enc_Header :: "jwe_Header option"
  jwe_enc_Source :: bytes

record Recipient =
  Recipient_Header :: "jwe_Header option"
  EncryptedKey :: bytes

record Message =
  Recipients :: "Recipient list"
  ProtectedHeader :: "jwe_EncodedHeader option"
  UnprotectedHeader :: "jwe_Header option"
  AuthenticatedData :: bytes
  CipherText :: bytes
  InitializationVector :: bytes
  Tag :: bytes

text \<open>
  The collaborators of \<^verbatim>\<open>Decrypt\<close>, none of them among the sources, are parameters.
  A \<^verbatim>\<open>ContentCipher\<close> has \<^verbatim>\<open>KeySize()\<close> and
  \<^verbatim>\<open>decrypt(cek, iv, ciphertext, tag, aad) ([]byte, error)\<close>; the source assigns both
  results of \<^verbatim>\<open>decrypt\<close> before it tests the error, so the model keeps the pair. A key
  decrypter is its method \<^verbatim>\<open>KeyDecrypt\<close>. The flate writer is a state \<open>'w\<close> with
  \<^verbatim>\<open>flate.NewWriter(&output, level)\<close>, \<^verbatim>\<open>Write\<close> and \<^verbatim>\<open>Close\<close>, the last one followed by
  \<^verbatim>\<open>output.Bytes()\<close>; by the contract of \<^verbatim>\<open>io.Writer\<close> a \<^verbatim>\<open>Write\<close> without error has
  consumed its whole argument.
\<close>

record ContentCipher =
  KeySize :: int
  decrypt :: "bytes \<Rightarrow> bytes \<Rightarrow> bytes \<Rightarrow> bytes \<Rightarrow> bytes \<Rightarrow> bytes option \<times> error option"

type_synonym KeyDecrypter = "bytes \<Rightarrow> error + bytes"

record 'w jwe_env =
  Base64Encode :: "bytes \<Rightarrow> error + bytes"
  BuildContentCipher :: "string \<Rightarrow> error + ContentCipher"
  BuildKeyDecrypter :: "string \<Rightarrow> jwe_Header \<Rightarrow> iface \<Rightarrow> int \<Rightarrow> error + KeyDecrypter"
  flate_NewWriter :: "int \<Rightarrow> 'w"
  flate_Write :: "'w \<Rightarrow> bytes \<Rightarrow> error + 'w"
  flate_Close :: "'w \<Rightarrow> error + bytes"

text \<open>
  The recipient loop of \<^verbatim>\<open>Decrypt\<close> (lines 760-797). The argument \<open>plaintext\<close> is the
  variable of that name, nil before the loop. \<open>Inl\<close> is a return from \<^verbatim>\<open>Decrypt\<close> inside
  the loop, \<open>Inr\<close> the value of \<open>plaintext\<close> when the loop is left by \<^verbatim>\<open>break\<close> or at
  the end of the recipients.
\<close>

fun Decrypt_recipients ::
  "'w jwe_env \<Rightarrow> string \<Rightarrow> iface \<Rightarrow> jwe_Header \<Rightarrow> ContentCipher \<Rightarrow> int
     \<Rightarrow> bytes \<Rightarrow> bytes \<Rightarrow> bytes \<Rightarrow> bytes \<Rightarrow> bytes option \<Rightarrow> Recipient list
     \<Rightarrow> error + bytes option" where
  "Decrypt_recipients E alg key h cipher keysize iv ciphertext tag aad plaintext [] =
     Inr plaintext"
| "Decrypt_recipients E alg key h cipher keysize iv ciphertext tag aad plaintext
     (recipient # rest) =
     (case Recipient_Header recipient of
        None \<Rightarrow> Inl NilDereference
      | Some rh \<Rightarrow>
          if jwe_Algorithm (jwe_Essential rh) \<noteq> alg then
            Decrypt_recipients E alg key h cipher keysize iv ciphertext tag aad plaintext rest
          else
            (case jwe_Header_Copy (Some jwe_NewHeader) (Some h) of
               (_, Some err) \<Rightarrow>
                 Decrypt_recipients E alg key h cipher keysize iv ciphertext tag aad plaintext rest
             | (h2, None) \<Rightarrow>
                 (case jwe_Header_Merge h2 (Recipient_Header recipient) of
                    Inl err \<Rightarrow>
                      Decrypt_recipients E alg key h cipher keysize iv ciphertext tag aad
                        plaintext rest
                  | Inr h2 \<Rightarrow>
                      (case BuildKeyDecrypter E (jwe_Algorithm (jwe_Essential h2)) h2 key
                              keysize of
                         Inl err \<Rightarrow>
                           Decrypt_recipients E alg key h cipher keysize iv ciphertext tag aad
                             plaintext rest
                       | Inr k \<Rightarrow>
                           (case k (EncryptedKey recipient) of
                              Inl err \<Rightarrow> Inl (ErrorString ''failed to decrypt key'')
                            | Inr cek \<Rightarrow>
                                (case decrypt cipher cek iv ciphertext tag aad of
                                   (plaintext, None) \<Rightarrow> Inr plaintext
                                 | (plaintext, Some err) \<Rightarrow>
                                     Decrypt_recipients E alg key h cipher keysize iv
                                       ciphertext tag aad plaintext rest))))))"

text \<open>The compression stage (lines 803-818): a level 1 flate writer is fed the plaintext
  and closed, and what it wrote is the result.\<close>

definition Decrypt_flate :: "'w jwe_env \<Rightarrow> bytes \<Rightarrow> error + bytes" where
  "Decrypt_flate E plaintext =
     (let w = flate_NewWriter E 1 in
      case (if length plaintext > 0 then flate_Write E w plaintext else Inr w) of
        Inl err \<Rightarrow> Inl err
      | Inr w \<Rightarrow> flate_Close E w)"

text \<open>\<^verbatim>\<open>func (m *Message) Decrypt(alg jwa.KeyEncryptionAlgorithm, key interface{}) ([]byte, error)\<close>.\<close>

definition Decrypt :: "'w jwe_env \<Rightarrow> Message \<Rightarrow> string \<Rightarrow> iface \<Rightarrow> error + bytes" where
  "Decrypt E m alg key =
     (if length (Recipients m) = 0 then
        Inl (ErrorString ''no recipients, can not proceed with decrypt'')
      else
        (case ProtectedHeader m of
           None \<Rightarrow> Inl NilDereference
         | Some protected \<Rightarrow>
             (case jwe_enc_Header protected of
                None \<Rightarrow> Inl NilDereference
              | Some ph \<Rightarrow>
                  (let enc = jwe_ContentEncryption (jwe_Essential ph) in
                   case jwe_Header_Copy (Some jwe_NewHeader) (jwe_enc_Header protected) of
                     (_, Some err) \<Rightarrow> Inl err
                   | (h, None) \<Rightarrow>
                       (case jwe_Header_Merge h (UnprotectedHeader m) of
                          Inl err \<Rightarrow> Inl err
                        | Inr h \<Rightarrow>
                            (case Base64Encode E (AuthenticatedData m) of
                               Inl err \<Rightarrow> Inl err
                             | Inr aad \<Rightarrow>
                                 (case BuildContentCipher E enc of
                                    Inl err \<Rightarrow>
                                      Inl (ErrorString
                                        (''unsupported content cipher algorithm ''
                                           @ [CHR 0x27] @ enc @ [CHR 0x27]))
                                  | Inr cipher \<Rightarrow>
                                      (case Decrypt_recipients E alg key h cipher
                                              (KeySize cipher) (InitializationVector m)
                                              (CipherText m) (Tag m) aad None (Recipients m) of
                                         Inl err \<Rightarrow> Inl err
                                       | Inr None \<Rightarrow>
                                           Inl (ErrorString
                                             ''failed to find matching recipient to decrypt key'')
                                       | Inr (Some plaintext) \<Rightarrow>
                                           if jwe_Compression (jwe_Essential h) = Deflate
                                           then Decrypt_flate E plaintext
                                           else Inr plaintext))))))))"

section \<open>Collaborators for the examples\<close>

text \<open>
  Modelled from the spec: \<^verbatim>\<open>buffer.Buffer.Base64Encode\<close>, the base64url encoding without
  padding of a byte buffer (package buffer is not among the sources). Three bytes give four
  characters of the URL-safe alphabet; one or two bytes left over give two or three.
\<close>

definition b64url_alphabet :: string where
  "b64url_alphabet = ''ABCDEFGHIJKLMNOPQRSTUVWXYZabcdefghijklmnopqrstuvwxyz0123456789-_''"

definition b64url_char :: "nat \<Rightarrow> char" where
  "b64url_char n = b64url_alphabet ! n"

fun b64url_chunks :: "nat list \<Rightarrow> string" where
  "b64url_chunks (a # b # c # rest) =
     b64url_char (a div 4) # b64url_char ((a mod 4) * 16 + b div 16)
       # b64url_char ((b mod 16) * 4 + c div 64) # b64url_char (c mod 64) # b64url_chunks rest"
| "b64url_chunks [a, b] =
     [b64url_char (a div 4), b64url_char ((a mod 4) * 16 + b div 16),
      b64url_char ((b mod 16) * 4)]"
| "b64url_chunks [a] = [b64url_char (a div 4), b64url_char ((a mod 4) * 16)]"
| "b64url_chunks [] = []"

definition buffer_Base64Encode :: "bytes \<Rightarrow> error + bytes" where
  "buffer_Base64Encode b = Inr (b64url_chunks (map of_char b))"

text \<open>
  Stand-ins for the cryptography, with the contracts of the spec's content cipher and key
  decrypter. \<open>tag_cipher\<close> accepts a ciphertext when the tag is the key followed by the AAD
  and returns the ciphertext; \<open>aad_echo_cipher\<close> returns the AAD it was handed;
  \<open>prefix_KeyDecrypter\<close> unwraps a key wrapped as the caller's key followed by the CEK.
  The flate writer collects what is written and emits it on \<^verbatim>\<open>Close\<close> as one stored block
  of RFC 1951 (final-block header, length, complemented length, data).
\<close>

definition tag_cipher :: ContentCipher where
  "tag_cipher =
     \<lparr>KeySize = 16,
      decrypt = (\<lambda>cek iv ciphertext tag aad.
        if tag = cek @ aad then (Some ciphertext, None)
        else (None, Some (ErrorString ''authentication failed'')))\<rparr>"

definition aad_echo_cipher :: ContentCipher where
  "aad_echo_cipher = \<lparr>KeySize = 16, decrypt = (\<lambda>cek iv ciphertext tag aad. (Some aad, None))\<rparr>"

definition prefix_KeyDecrypter :: "iface \<Rightarrow> KeyDecrypter" where
  "prefix_KeyDecrypter key wrapped =
     (case key of
        IBytes k \<Rightarrow>
          if take (length k) wrapped = k then Inr (drop (length k) wrapped)
          else Inl (ErrorString ''key unwrap failed'')
      | _ \<Rightarrow> Inl (ErrorString ''invalid key''))"

definition stored_block :: "bytes \<Rightarrow> error + bytes" where
  "stored_block d =
     (if length d < 65536 then
        Inr ([char_of (1 :: nat), char_of (length d mod 256), char_of (length d div 256),
              char_of (255 - length d mod 256), char_of (255 - length d div 256)] @ d)
      else Inl (ErrorString ''more than one stored block''))"

definition test_env :: "bytes jwe_env" where
  "test_env =
     \<lparr>Base64Encode = buffer_Base64Encode,
      BuildContentCipher = (\<lambda>enc.
        if enc = ''test-tag'' then Inr tag_cipher
        else if enc = ''test-echo-aad'' then Inr aad_echo_cipher
        else Inl (ErrorString ''unsupported'')),
      BuildKeyDecrypter = (\<lambda>alg h key keysize.
        if alg = ''test-prefix'' then Inr (prefix_KeyDecrypter key)
        else Inl (ErrorString ''unsupported'')),
      flate_NewWriter = (\<lambda>level. []),
      flate_Write = (\<lambda>w p. Inr (w @ p)),
      flate_Close = stored_block\<rparr>"

text \<open>Headers and messages of the examples: the CEK is \<^verbatim>\<open>cek0\<close>, the tag is the one
  \<open>tag_cipher\<close> accepts for the AAD buffer of the message, and the caller holds the key
  \<^verbatim>\<open>K2\<close>.\<close>

definition header_with :: "string \<Rightarrow> string \<Rightarrow> string \<Rightarrow> jwe_Header" where
  "header_with alg enc compression =
     jwe_NewHeader\<lparr>jwe_Essential := jwe_zero_EssentialHeader
       \<lparr>jwe_Algorithm := alg, jwe_ContentEncryption := enc, jwe_Compression := compression\<rparr>\<rparr>"

definition recipient_for :: "string \<Rightarrow> bytes \<Rightarrow> Recipient" where
  "recipient_for alg wrapped =
     \<lparr>Recipient_Header = Some (header_with alg [] []), EncryptedKey = wrapped\<rparr>"

definition message_of ::
  "jwe_Header \<Rightarrow> bytes \<Rightarrow> bytes \<Rightarrow> bytes \<Rightarrow> Recipient list \<Rightarrow> Message" where
  "message_of protected source aad content rs =
     \<lparr>Recipients = rs,
      ProtectedHeader = Some \<lparr>jwe_enc_Header = Some protected, jwe_enc_Source = source\<rparr>,
      UnprotectedHeader = Some jwe_NewHeader,
      AuthenticatedData = aad,
      CipherText = content,
      InitializationVector = ''iv'',
      Tag = ''cek0'' @ projr (buffer_Base64Encode aad)\<rparr>"

section \<open>Notions the statements about Decrypt use\<close>

text \<open>The test of line 762 on one recipient: the algorithm of the recipient's own header
  differs from the caller's.\<close>

definition skipped :: "string \<Rightarrow> Recipient \<Rightarrow> bool" where
  "skipped alg r =
     (case Recipient_Header r of
        None \<Rightarrow> False
      | Some rh \<Rightarrow> jwe_Algorithm (jwe_Essential rh) \<noteq> alg)"

text \<open>A content cipher that disregards the AAD it is handed and decrypts under \<open>a\<close>.\<close>

definition with_aad :: "bytes \<Rightarrow> ContentCipher \<Rightarrow> ContentCipher" where
  "with_aad a c = c\<lparr>decrypt := (\<lambda>cek iv ciphertext tag aad. decrypt c cek iv ciphertext tag a)\<rparr>"

text \<open>
  The effective algorithm of a recipient in the words of the spec: the algorithm of the merge
  of the protected header, the unprotected header and the recipient's own header.
\<close>

definition spec_effective_algorithm :: "Message \<Rightarrow> Recipient \<Rightarrow> error + string" where
  "spec_effective_algorithm m r =
     (case ProtectedHeader m of
        None \<Rightarrow> Inl NilDereference
      | Some protected \<Rightarrow>
          (case jwe_Header_Merge (jwe_enc_Header protected) (UnprotectedHeader m) of
             Inl err \<Rightarrow> Inl err
           | Inr h \<Rightarrow>
               (case jwe_Header_Merge (Some h) (Recipient_Header r) of
                  Inl err \<Rightarrow> Inl err
                | Inr h2 \<Rightarrow> Inr (jwe_Algorithm (jwe_Essential h2)))))"

text \<open>
  Four messages. In \<open>echo_message\<close> the protected header was parsed from the bytes kept as
  its \<^verbatim>\<open>Source\<close>, the AAD buffer holds \<^verbatim>\<open>abc\<close>, and the content cipher echoes its AAD.
  In \<open>inherit_message\<close> the algorithm stands in the protected header only and the
  recipient's own header is empty. \<open>two_recipients\<close> has two recipients under one algorithm,
  the keys wrapped for \<^verbatim>\<open>K1\<close> and \<^verbatim>\<open>K2\<close> in the given order. In \<open>zip_message\<close> the
  protected header says \<^verbatim>\<open>DEF\<close> and the content is \<open>content\<close>.
\<close>

definition echo_message :: Message where
  "echo_message =
     message_of (header_with ''test-prefix'' ''test-echo-aad'' [])
       ''{\"alg\":\"test-prefix\",\"enc\":\"test-echo-aad\"}'' ''abc'' ''hello''
       [recipient_for ''test-prefix'' ''K2cek0'']"

definition inherit_message :: "string \<Rightarrow> Message" where
  "inherit_message own_alg =
     message_of (header_with ''test-prefix'' ''test-tag'' [])
       ''{\"alg\":\"test-prefix\",\"enc\":\"test-tag\"}'' [] ''hello''
       [recipient_for own_alg ''K2cek0'']"

definition two_recipients :: "bytes \<Rightarrow> bytes \<Rightarrow> Message" where
  "two_recipients first second =
     message_of (header_with [] ''test-tag'' []) ''{\"enc\":\"test-tag\"}'' [] ''hello''
       [recipient_for ''test-prefix'' first, recipient_for ''test-prefix'' second]"

definition zip_message :: "bytes \<Rightarrow> Message" where
  "zip_message content =
     message_of (header_with ''test-prefix'' ''test-tag'' ''DEF'')
       ''{\"alg\":\"test-prefix\",\"enc\":\"test-tag\",\"zip\":\"DEF\"}'' [] content
       [recipient_for ''test-prefix'' ''K2cek0'']"

section \<open>Encoded headers\<close>


record 'h json_env =
  json_Marshal_Header :: "'h option \<Rightarrow> error + bytes"
  json_Unmarshal_Header :: "bytes \<Rightarrow> 'h option \<Rightarrow> 'h option \<times> error option"
  json_Marshal_string :: "bytes \<Rightarrow> error + bytes"
  json_Unmarshal_Buffer :: "bytes \<Rightarrow> error + bytes"
  json_Base64Encode :: "bytes \<Rightarrow> error + bytes"





definition jwe_EncodedHeader_UnmarshalJSON ::
  "jwe_Header json_env \<Rightarrow> jwe_EncodedHeader \<Rightarrow> bytes \<Rightarrow> jwe_EncodedHeader \<times> error option" where
  "jwe_EncodedHeader_UnmarshalJSON J e buf =
     (case json_Unmarshal_Buffer J buf of
        Inl err \<Rightarrow> (e, Some err)
      | Inr b \<Rightarrow>
          (case json_Unmarshal_Header J b (jwe_enc_Header e) of
             (h, Some err) \<Rightarrow> (e\<lparr>jwe_enc_Header := h\<rparr>, Some err)
           | (h, None) \<Rightarrow> (e\<lparr>jwe_enc_Header := h\<rparr>, None)))"

section \<open>A JSON codec for the examples\<close>





















section \<open>Properties of the header operations\<close>

subsection \<open>What Copy and Merge compute, field by field\<close>

text \<open>A conditional assignment \<^verbatim>\<open>if c { r.F = v }\<close> is the assignment of a conditional
  value; with these equations the chains of \<^verbatim>\<open>EssentialHeader.Merge\<close> collapse to one
  record.\<close>

lemma jws_cond_update:
  "(if c then r\<lparr>jws_Algorithm := v0\<rparr> else r) = r\<lparr>jws_Algorithm := (if c then v0 else jws_Algorithm r)\<rparr>"
  "(if c then r\<lparr>jws_ContentType := v1\<rparr> else r) = r\<lparr>jws_ContentType := (if c then v1 else jws_ContentType r)\<rparr>"
  "(if c then r\<lparr>jws_Critical := v2\<rparr> else r) = r\<lparr>jws_Critical := (if c then v2 else jws_Critical r)\<rparr>"
  "(if c then r\<lparr>jws_Jwk := v3\<rparr> else r) = r\<lparr>jws_Jwk := (if c then v3 else jws_Jwk r)\<rparr>"
  "(if c then r\<lparr>jws_JwkSetURL := v4\<rparr> else r) = r\<lparr>jws_JwkSetURL := (if c then v4 else jws_JwkSetURL r)\<rparr>"
  "(if c then r\<lparr>jws_KeyID := v5\<rparr> else r) = r\<lparr>jws_KeyID := (if c then v5 else jws_KeyID r)\<rparr>"
  "(if c then r\<lparr>jws_Type := v6\<rparr> else r) = r\<lparr>jws_Type := (if c then v6 else jws_Type r)\<rparr>"
  "(if c then r\<lparr>jws_X509Url := v7\<rparr> else r) = r\<lparr>jws_X509Url := (if c then v7 else jws_X509Url r)\<rparr>"
  "(if c then r\<lparr>jws_X509CertChain := v8\<rparr> else r) = r\<lparr>jws_X509CertChain := (if c then v8 else jws_X509CertChain r)\<rparr>"
  "(if c then r\<lparr>jws_X509CertThumbprint := v9\<rparr> else r) = r\<lparr>jws_X509CertThumbprint := (if c then v9 else jws_X509CertThumbprint r)\<rparr>"
  "(if c then r\<lparr>jws_X509CertThumbprintS256 := v10\<rparr> else r) = r\<lparr>jws_X509CertThumbprintS256 := (if c then v10 else jws_X509CertThumbprintS256 r)\<rparr>"
  by simp_all

lemma jwe_cond_update:
  "(if c then r\<lparr>jwe_AgreementPartyUInfo := v0\<rparr> else r) = r\<lparr>jwe_AgreementPartyUInfo := (if c then v0 else jwe_AgreementPartyUInfo r)\<rparr>"
  "(if c then r\<lparr>jwe_AgreementPartyVInfo := v1\<rparr> else r) = r\<lparr>jwe_AgreementPartyVInfo := (if c then v1 else jwe_AgreementPartyVInfo r)\<rparr>"
  "(if c then r\<lparr>jwe_Algorithm := v2\<rparr> else r) = r\<lparr>jwe_Algorithm := (if c then v2 else jwe_Algorithm r)\<rparr>"
  "(if c then r\<lparr>jwe_ContentEncryption := v3\<rparr> else r) = r\<lparr>jwe_ContentEncryption := (if c then v3 else jwe_ContentEncryption r)\<rparr>"
  "(if c then r\<lparr>jwe_ContentType := v4\<rparr> else r) = r\<lparr>jwe_ContentType := (if c then v4 else jwe_ContentType r)\<rparr>"
  "(if c then r\<lparr>jwe_Compression := v5\<rparr> else r) = r\<lparr>jwe_Compression := (if c then v5 else jwe_Compression r)\<rparr>"
  "(if c then r\<lparr>jwe_Critical := v6\<rparr> else r) = r\<lparr>jwe_Critical := (if c then v6 else jwe_Critical r)\<rparr>"
  "(if c then r\<lparr>jwe_EphemeralPublicKey := v7\<rparr> else r) = r\<lparr>jwe_EphemeralPublicKey := (if c then v7 else jwe_EphemeralPublicKey r)\<rparr>"
  "(if c then r\<lparr>jwe_Jwk := v8\<rparr> else r) = r\<lparr>jwe_Jwk := (if c then v8 else jwe_Jwk r)\<rparr>"
  "(if c then r\<lparr>jwe_JwkSetURL := v9\<rparr> else r) = r\<lparr>jwe_JwkSetURL := (if c then v9 else jwe_JwkSetURL r)\<rparr>"
  "(if c then r\<lparr>jwe_KeyID := v10\<rparr> else r) = r\<lparr>jwe_KeyID := (if c then v10 else jwe_KeyID r)\<rparr>"
  "(if c then r\<lparr>jwe_Type := v11\<rparr> else r) = r\<lparr>jwe_Type := (if c then v11 else jwe_Type r)\<rparr>"
  "(if c then r\<lparr>jwe_X509Url := v12\<rparr> else r) = r\<lparr>jwe_X509Url := (if c then v12 else jwe_X509Url r)\<rparr>"
  "(if c then r\<lparr>jwe_X509CertChain := v13\<rparr> else r) = r\<lparr>jwe_X509CertChain := (if c then v13 else jwe_X509CertChain r)\<rparr>"
  "(if c then r\<lparr>jwe_X509CertThumbprint := v14\<rparr> else r) = r\<lparr>jwe_X509CertThumbprint := (if c then v14 else jwe_X509CertThumbprint r)\<rparr>"
  "(if c then r\<lparr>jwe_X509CertThumbprintS256 := v15\<rparr> else r) = r\<lparr>jwe_X509CertThumbprintS256 := (if c then v15 else jwe_X509CertThumbprintS256 r)\<rparr>"
  by simp_all

lemma jws_EssentialHeader_Copy_eq:
  "jws_EssentialHeader_Copy d s = s\<lparr>jws_Critical := jws_Critical d, jws_Jwk := jws_Jwk d\<rparr>"
  by (cases d, cases s) (simp add: jws_EssentialHeader_Copy_def)

lemma jwe_EssentialHeader_Copy_eq: "jwe_EssentialHeader_Copy d s = s"
  by (cases d, cases s) (simp add: jwe_EssentialHeader_Copy_def)

lemma jws_EssentialHeader_Merge_eq:
  "jws_EssentialHeader_Merge h1 h2 =
     \<lparr>jws_Algorithm = (if jws_Algorithm h2 \<noteq> '''' then jws_Algorithm h2 else jws_Algorithm h1),
      jws_ContentType =
        (if jws_ContentType h2 \<noteq> '''' then jws_ContentType h2 else jws_ContentType h1),
      jws_Critical = jws_Critical h1,
      jws_Jwk = jws_Jwk h1,
      jws_JwkSetURL = (if jws_JwkSetURL h2 \<noteq> None then jws_JwkSetURL h2 else jws_JwkSetURL h1),
      jws_KeyID = (if jws_KeyID h2 \<noteq> '''' then jws_KeyID h2 else jws_KeyID h1),
      jws_Type = (if jws_Type h2 \<noteq> '''' then jws_Type h2 else jws_Type h1),
      jws_X509Url = (if jws_X509Url h2 \<noteq> None then jws_X509Url h2 else jws_X509Url h1),
      jws_X509CertChain =
        (if jws_X509CertChain h2 \<noteq> None then jws_X509CertChain h2 else jws_X509CertChain h1),
      jws_X509CertThumbprint =
        (if jws_X509CertThumbprint h2 \<noteq> '''' then jws_X509CertThumbprint h2
         else jws_X509CertThumbprint h1),
      jws_X509CertThumbprintS256 =
        (if jws_X509CertThumbprintS256 h2 \<noteq> '''' then jws_X509CertThumbprintS256 h2
         else jws_X509CertThumbprintS256 h1)\<rparr>"
  by (rule jws_EssentialHeader.equality)
    (simp_all add: jws_EssentialHeader_Merge_def Let_def jws_cond_update)

lemma jwe_EssentialHeader_Merge_eq:
  "jwe_EssentialHeader_Merge h1 h2 =
     \<lparr>jwe_AgreementPartyUInfo =
        (if jwe_AgreementPartyUInfo h2 \<noteq> [] then jwe_AgreementPartyUInfo h2
         else jwe_AgreementPartyUInfo h1),
      jwe_AgreementPartyVInfo =
        (if jwe_AgreementPartyVInfo h2 \<noteq> [] then jwe_AgreementPartyVInfo h2
         else jwe_AgreementPartyVInfo h1),
      jwe_Algorithm = (if jwe_Algorithm h2 \<noteq> '''' then jwe_Algorithm h2 else jwe_Algorithm h1),
      jwe_ContentEncryption =
        (if jwe_ContentEncryption h2 \<noteq> '''' then jwe_ContentEncryption h2
         else jwe_ContentEncryption h1),
      jwe_ContentType =
        (if jwe_ContentType h2 \<noteq> '''' then jwe_ContentType h2 else jwe_ContentType h1),
      jwe_Compression =
        (if jwe_Compression h2 \<noteq> '''' then jwe_Compression h2 else jwe_Compression h1),
      jwe_Critical = (if jwe_Critical h2 \<noteq> None then jwe_Critical h2 else jwe_Critical h1),
      jwe_EphemeralPublicKey =
        (if jwe_EphemeralPublicKey h2 \<noteq> None then jwe_EphemeralPublicKey h2
         else jwe_EphemeralPublicKey h1),
      jwe_Jwk = (if jwe_Jwk h2 \<noteq> None then jwe_Jwk h2 else jwe_Jwk h1),
      jwe_JwkSetURL = (if jwe_JwkSetURL h2 \<noteq> None then jwe_JwkSetURL h2 else jwe_JwkSetURL h1),
      jwe_KeyID = (if jwe_KeyID h2 \<noteq> '''' then jwe_KeyID h2 else jwe_KeyID h1),
      jwe_Type = (if jwe_Type h2 \<noteq> '''' then jwe_Type h2 else jwe_Type h1),
      jwe_X509Url = (if jwe_X509Url h2 \<noteq> None then jwe_X509Url h2 else jwe_X509Url h1),
      jwe_X509CertChain =
        (if jwe_X509CertChain h2 \<noteq> None then jwe_X509CertChain h2 else jwe_X509CertChain h1),
      jwe_X509CertThumbprint =
        (if jwe_X509CertThumbprint h2 \<noteq> '''' then jwe_X509CertThumbprint h2
         else jwe_X509CertThumbprint h1),
      jwe_X509CertThumbprintS256 =
        (if jwe_X509CertThumbprintS256 h2 \<noteq> '''' then jwe_X509CertThumbprintS256 h2
         else jwe_X509CertThumbprintS256 h1)\<rparr>"
  by (rule jwe_EssentialHeader.equality)
    (simp_all add: jwe_EssentialHeader_Merge_def Let_def jwe_cond_update)

lemma jws_Header_Copy_Some:
  "jws_Header_Copy (Some d) (Some s) =
     (Some \<lparr>jws_Essential = jws_EssentialHeader_Copy (jws_Essential d) (jws_Essential s),
            jws_PrivateParams = jws_PrivateParams d ++ jws_PrivateParams s\<rparr>, None)"
  by (simp add: jws_Header_Copy_def)

lemma jwe_Header_Copy_Some:
  "jwe_Header_Copy (Some d) (Some s) =
     (Some \<lparr>jwe_Essential = jwe_Essential s,
            jwe_PrivateParams = jwe_PrivateParams d ++ jwe_PrivateParams s\<rparr>, None)"
  by (simp add: jwe_Header_Copy_def jwe_EssentialHeader_Copy_eq)

lemma jwe_Header_Copy_New: "jwe_Header_Copy (Some jwe_NewHeader) (Some s) = (Some s, None)"
  by (simp add: jwe_Header_Copy_Some jwe_NewHeader_def)

lemma jws_Header_Merge_Some:
  "jws_Header_Merge (Some a) (Some b) =
     Inr \<lparr>jws_Essential =
            jws_EssentialHeader_Merge
              (jws_EssentialHeader_Copy jws_zero_EssentialHeader (jws_Essential a))
              (jws_Essential b),
          jws_PrivateParams = jws_PrivateParams a ++ jws_PrivateParams b\<rparr>"
  by (simp add: jws_Header_Merge_def jws_Header_Copy_Some jws_NewHeader_def)

text \<open>Package jwe: the merge of two headers takes each essential field from the argument
  when it is non-empty there and from the receiver otherwise, and the extension map of the
  receiver overlaid with the argument's.\<close>

lemma jwe_Header_Merge_Some:
  "jwe_Header_Merge (Some a) (Some b) =
     Inr \<lparr>jwe_Essential = jwe_EssentialHeader_Merge (jwe_Essential a) (jwe_Essential b),
          jwe_PrivateParams = jwe_PrivateParams a ++ jwe_PrivateParams b\<rparr>"
  by (simp add: jwe_Header_Merge_def jwe_Header_Copy_New)

subsection \<open>A failed Set leaves the header as it was\<close>

lemma set_ok_if: "set_ok h a \<Longrightarrow> set_ok h b \<Longrightarrow> set_ok h (if c then a else b)"
  by simp

lemma jws_set_string_ok: "set_ok h (jws_set_string f h v)"
  by (cases v) (simp_all add: jws_set_string_def set_ok_def)

lemma jws_set_strings_ok: "set_ok h (jws_set_strings f h v)"
  by (cases v) (simp_all add: jws_set_strings_def set_ok_def)

lemma jws_set_url_ok: "set_ok h (jws_set_url p f h v)"
  by (cases v) (simp_all add: jws_set_url_def set_ok_def split: sum.splits)

lemma jws_Set_ok: "set_ok h (jws_Set parse h key v)"
proof -
  have alg: "set_ok h (case v of
           IString s \<Rightarrow> (h\<lparr>jws_Essential := (jws_Essential h)\<lparr>jws_Algorithm := s\<rparr>\<rparr>, None)
         | ISignatureAlgorithm a \<Rightarrow>
             (h\<lparr>jws_Essential := (jws_Essential h)\<lparr>jws_Algorithm := a\<rparr>\<rparr>, None)
         | _ \<Rightarrow> (h, Some ErrInvalidHeaderValue))"
    by (cases v) (simp_all add: set_ok_def)
  have dflt: "set_ok h (h\<lparr>jws_PrivateParams := (jws_PrivateParams h)(key \<mapsto> v)\<rparr>, None)"
    by (simp add: set_ok_def)
  show ?thesis
    unfolding jws_Set_def
    by (intro set_ok_if alg dflt jws_set_string_ok jws_set_strings_ok jws_set_url_ok)
qed

lemma jwe_set_string_ok: "set_ok h (jwe_set_string f h v)"
  by (cases v) (simp_all add: jwe_set_string_def set_ok_def)

lemma jwe_set_strings_ok: "set_ok h (jwe_set_strings f h v)"
  by (cases v) (simp_all add: jwe_set_strings_def set_ok_def)

lemma jwe_set_url_ok: "set_ok h (jwe_set_url p f h v)"
  by (cases v) (simp_all add: jwe_set_url_def set_ok_def split: sum.splits)

lemma jwe_set_buffer_ok: "set_ok h (jwe_set_buffer f h v)"
  by (cases v) (simp_all add: jwe_set_buffer_def set_ok_def)

lemma jwe_Set_ok: "set_ok h (jwe_Set parse h key v)"
proof -
  have alg: "set_ok h (case v of
           IString s \<Rightarrow> (h\<lparr>jwe_Essential := (jwe_Essential h)\<lparr>jwe_Algorithm := s\<rparr>\<rparr>, None)
         | IKeyEncryptionAlgorithm a \<Rightarrow>
             (h\<lparr>jwe_Essential := (jwe_Essential h)\<lparr>jwe_Algorithm := a\<rparr>\<rparr>, None)
         | _ \<Rightarrow> (h, Some ErrInvalidHeaderValue))"
    by (cases v) (simp_all add: set_ok_def)
  have enc: "set_ok h (case v of
           IString s \<Rightarrow> (h\<lparr>jwe_Essential := (jwe_Essential h)\<lparr>jwe_ContentEncryption := s\<rparr>\<rparr>, None)
         | IContentEncryptionAlgorithm a \<Rightarrow>
             (h\<lparr>jwe_Essential := (jwe_Essential h)\<lparr>jwe_ContentEncryption := a\<rparr>\<rparr>, None)
         | _ \<Rightarrow> (h, Some ErrInvalidHeaderValue))"
    by (cases v) (simp_all add: set_ok_def)
  have epk: "set_ok h (case v of
           IEcdsaPublicKey k \<Rightarrow>
             (h\<lparr>jwe_Essential := (jwe_Essential h)\<lparr>jwe_EphemeralPublicKey := k\<rparr>\<rparr>, None)
         | _ \<Rightarrow> (h, Some ErrInvalidHeaderValue))"
    by (cases v) (simp_all add: set_ok_def)
  have dflt: "set_ok h (h\<lparr>jwe_PrivateParams := (jwe_PrivateParams h)(key \<mapsto> v)\<rparr>, None)"
    by (simp add: set_ok_def)
  show ?thesis
    unfolding jwe_Set_def
    by (intro set_ok_if alg enc epk dflt jwe_set_string_ok jwe_set_strings_ok jwe_set_url_ok
        jwe_set_buffer_ok)
qed

text \<open>
  Claim C9. For every header, key and value, in package jws and in package jwe: when
  \<^verbatim>\<open>Set\<close> returns an error, the error is \<^verbatim>\<open>ErrInvalidHeaderValue\<close> and the header after the
  call is the header before it, in every essential field and in the extension map.
\<close>

theorem Set_error_leaves_header_unchanged:
  "(snd (jws_Set parse h key v) \<noteq> None \<longrightarrow>
      jws_Set parse h key v = (h, Some ErrInvalidHeaderValue)) \<and>
   (snd (jwe_Set parse g key v) \<noteq> None \<longrightarrow>
      jwe_Set parse g key v = (g, Some ErrInvalidHeaderValue))"
  using jws_Set_ok [of h parse key v] jwe_Set_ok [of g parse key v]
  by (auto simp: set_ok_def)

theorem Set_error_leaves_header_unchanged_witness:
  "snd (jws_Set (\<lambda>s. Inr (URL s)) jws_NewHeader ''crit'' (IString ''exp'')) \<noteq> None \<and>
   jws_Set (\<lambda>s. Inr (URL s)) jws_NewHeader ''crit'' (IString ''exp'')
     = (jws_NewHeader, Some ErrInvalidHeaderValue) \<and>
   snd (jwe_Set (\<lambda>s. Inr (URL s)) jwe_NewHeader ''crit'' (IString ''exp'')) \<noteq> None \<and>
   jwe_Set (\<lambda>s. Inr (URL s)) jwe_NewHeader ''crit'' (IString ''exp'')
     = (jwe_NewHeader, Some ErrInvalidHeaderValue)"
proof -
  have a: "snd (jws_Set (\<lambda>s. Inr (URL s)) jws_NewHeader ''crit'' (IString ''exp'')) \<noteq> None"
    by (simp add: jws_Set_def jws_set_strings_def)
  have b: "snd (jwe_Set (\<lambda>s. Inr (URL s)) jwe_NewHeader ''crit'' (IString ''exp'')) \<noteq> None"
    by (simp add: jwe_Set_def jwe_set_strings_def)
  from a b
    Set_error_leaves_header_unchanged
      [of "\<lambda>s. Inr (URL s)" jws_NewHeader "''crit''" "IString ''exp''" jwe_NewHeader]
  show ?thesis by blast
qed

subsection \<open>Where Set stores a key\<close>

text \<open>
  Claim C7. \<^verbatim>\<open>Set\<close> is to route every essential JSON key to its typed field and store only
  the other keys in the extension map. On the code the essential keys \<^verbatim>\<open>x5t#S256\<close> (jws
  and jwe: the switch tests \<^verbatim>\<open>x5t#256\<close>), \<^verbatim>\<open>zip\<close> and \<^verbatim>\<open>jwk\<close> (jwe: no case) reach the
  default branch: whatever the header and the value, the call succeeds, leaves every essential
  field as it was and stores the value in the extension map under the essential key.
\<close>

theorem Set_stores_x5tS256_zip_jwk_in_PrivateParams:
  "jws_Set parse h ''x5t#S256'' v
     = (h\<lparr>jws_PrivateParams := (jws_PrivateParams h)(''x5t#S256'' \<mapsto> v)\<rparr>, None) \<and>
   jwe_Set parse g ''x5t#S256'' v
     = (g\<lparr>jwe_PrivateParams := (jwe_PrivateParams g)(''x5t#S256'' \<mapsto> v)\<rparr>, None) \<and>
   jwe_Set parse g ''zip'' v
     = (g\<lparr>jwe_PrivateParams := (jwe_PrivateParams g)(''zip'' \<mapsto> v)\<rparr>, None) \<and>
   jwe_Set parse g ''jwk'' v
     = (g\<lparr>jwe_PrivateParams := (jwe_PrivateParams g)(''jwk'' \<mapsto> v)\<rparr>, None)"
  by (simp add: jws_Set_def jwe_Set_def)

subsection \<open>Merge and Copy on the jws header\<close>

text \<open>
  Claim C6. \<^verbatim>\<open>merge(a, b)\<close> is to carry every non-empty essential field of \<open>b\<close> and keep
  the fields of \<open>a\<close> that are empty in \<open>b\<close>, the jws \<^verbatim>\<open>Critical\<close> and \<^verbatim>\<open>Jwk\<close> among them.
  On the code the jws merge of two non-nil headers succeeds, and its result has
  \<^verbatim>\<open>Critical\<close> and \<^verbatim>\<open>Jwk\<close> nil whatever \<open>a\<close> and \<open>b\<close> hold: neither
  \<^verbatim>\<open>EssentialHeader.Copy\<close> nor \<^verbatim>\<open>EssentialHeader.Merge\<close> of package jws assigns the two
  fields (the jwe methods assign both, \<open>jwe_EssentialHeader_Merge_eq\<close>).
\<close>

theorem jws_Merge_loses_Critical_and_Jwk:
  "\<exists>h3. jws_Header_Merge (Some a) (Some b) = Inr h3 \<and>
         jws_Critical (jws_Essential h3) = None \<and> jws_Jwk (jws_Essential h3) = None"
  by (simp add: jws_Header_Merge_Some jws_EssentialHeader_Merge_eq jws_EssentialHeader_Copy_eq
      jws_zero_EssentialHeader_def)

text \<open>
  Claim C8. \<^verbatim>\<open>Copy(dst, src)\<close> is to make every essential field of \<open>dst\<close> equal to the
  field of \<open>src\<close>. On the code the jws copy between two non-nil headers succeeds and leaves
  \<^verbatim>\<open>Critical\<close> and \<^verbatim>\<open>Jwk\<close> of the destination as they were, whatever the source holds
  (the jwe copy replaces all sixteen fields, \<open>jwe_EssentialHeader_Copy_eq\<close>).
\<close>

theorem jws_Copy_leaves_Critical_and_Jwk_of_dst:
  "\<exists>d'. jws_Header_Copy (Some d) (Some s) = (Some d', None) \<and>
         jws_Critical (jws_Essential d') = jws_Critical (jws_Essential d) \<and>
         jws_Jwk (jws_Essential d') = jws_Jwk (jws_Essential d)"
  by (simp add: jws_Header_Copy_Some jws_EssentialHeader_Copy_eq)

subsection \<open>Construct\<close>

text \<open>
  Claim C10. For every map \<open>m\<close>, \<^verbatim>\<open>Construct\<close> returns no error; it assigns
  \<^verbatim>\<open>Critical\<close> and \<^verbatim>\<open>X509CertChain\<close> exactly when the string-slice extraction of
  \<^verbatim>\<open>crit\<close> / \<^verbatim>\<open>x5c\<close> returns an error, and then assigns the value that came with the
  error, so a well-formed list in \<open>m\<close> leaves the field of the receiver as it was; an
  \<^verbatim>\<open>alg\<close> whose extraction fails leaves an empty \<^verbatim>\<open>Algorithm\<close> at \<^verbatim>\<open>NoSignature\<close>; each
  of the five string fields takes what its extraction returns, error or not (the SHA-256
  thumbprint from the key \<^verbatim>\<open>x5t#256\<close>); \<^verbatim>\<open>Jwk\<close> is never assigned; and a failed
  extraction of \<^verbatim>\<open>jku\<close> / \<^verbatim>\<open>x5u\<close> leaves the URL field as it was.
\<close>

theorem Construct_stores_crit_x5c_only_on_error:
  "snd (jws_Construct gs gss parse h m) = None \<and>
   jws_Critical (fst (jws_Construct gs gss parse h m))
     = (case gss m ''crit'' of (v, Some err) \<Rightarrow> v | (v, None) \<Rightarrow> jws_Critical h) \<and>
   jws_X509CertChain (fst (jws_Construct gs gss parse h m))
     = (case gss m ''x5c'' of (v, Some err) \<Rightarrow> v | (v, None) \<Rightarrow> jws_X509CertChain h) \<and>
   (snd (gs m ''alg'') \<noteq> None \<and> jws_Algorithm h = '''' \<longrightarrow>
      jws_Algorithm (fst (jws_Construct gs gss parse h m)) = NoSignature) \<and>
   jws_ContentType (fst (jws_Construct gs gss parse h m)) = fst (gs m ''cty'') \<and>
   jws_KeyID (fst (jws_Construct gs gss parse h m)) = fst (gs m ''kid'') \<and>
   jws_Type (fst (jws_Construct gs gss parse h m)) = fst (gs m ''typ'') \<and>
   jws_X509CertThumbprint (fst (jws_Construct gs gss parse h m)) = fst (gs m ''x5t'') \<and>
   jws_X509CertThumbprintS256 (fst (jws_Construct gs gss parse h m)) = fst (gs m ''x5t#256'') \<and>
   jws_Jwk (fst (jws_Construct gs gss parse h m)) = jws_Jwk h \<and>
   (snd (gs m ''jku'') \<noteq> None \<longrightarrow>
      jws_JwkSetURL (fst (jws_Construct gs gss parse h m)) = jws_JwkSetURL h) \<and>
   (snd (gs m ''x5u'') \<noteq> None \<longrightarrow>
      jws_X509Url (fst (jws_Construct gs gss parse h m)) = jws_X509Url h)"
proof -
  define h1 where "h1 =
      (case gs m ''alg'' of
         (alg, None) \<Rightarrow> h\<lparr>jws_Algorithm := alg\<rparr>
       | (_, Some err) \<Rightarrow> h)"
  define h2 where "h2 = (if jws_Algorithm h1 = '''' then h1\<lparr>jws_Algorithm := NoSignature\<rparr> else h1)"
  define h3 where "h3 = h2\<lparr>jws_ContentType := fst (gs m ''cty'')\<rparr>"
  define h4 where "h4 = h3\<lparr>jws_KeyID := fst (gs m ''kid'')\<rparr>"
  define h5 where "h5 = h4\<lparr>jws_Type := fst (gs m ''typ'')\<rparr>"
  define h6 where "h6 = h5\<lparr>jws_X509CertThumbprint := fst (gs m ''x5t'')\<rparr>"
  define h7 where "h7 = h6\<lparr>jws_X509CertThumbprintS256 := fst (gs m ''x5t#256'')\<rparr>"
  define h8 where "h8 =
      (case gss m ''crit'' of
         (v, Some err) \<Rightarrow> h7\<lparr>jws_Critical := v\<rparr>
       | (_, None) \<Rightarrow> h7)"
  define h9 where "h9 =
      (case gss m ''x5c'' of
         (v, Some err) \<Rightarrow> h8\<lparr>jws_X509CertChain := v\<rparr>
       | (_, None) \<Rightarrow> h8)"
  define h10 where "h10 =
      (case gs m ''jku'' of
         (v, None) \<Rightarrow>
           (case parse v of Inr u \<Rightarrow> h9\<lparr>jws_JwkSetURL := Some u\<rparr> | Inl err \<Rightarrow> h9)
       | (_, Some err) \<Rightarrow> h9)"
  define h11 where "h11 =
      (case gs m ''x5u'' of
         (v, None) \<Rightarrow>
           (case parse v of Inr u \<Rightarrow> h10\<lparr>jws_X509Url := Some u\<rparr> | Inl err \<Rightarrow> h10)
       | (_, Some err) \<Rightarrow> h10)"
  have run: "jws_Construct gs gss parse h m = (h11, None)"
    unfolding jws_Construct_def Let_def h11_def h10_def h9_def h8_def h7_def h6_def h5_def
      h4_def h3_def h2_def h1_def
    by (rule refl)
  have keep1:
    "jws_ContentType h1 = jws_ContentType h" "jws_Critical h1 = jws_Critical h"
    "jws_Jwk h1 = jws_Jwk h" "jws_JwkSetURL h1 = jws_JwkSetURL h"
    "jws_KeyID h1 = jws_KeyID h" "jws_Type h1 = jws_Type h"
    "jws_X509Url h1 = jws_X509Url h" "jws_X509CertChain h1 = jws_X509CertChain h"
    "jws_X509CertThumbprint h1 = jws_X509CertThumbprint h" "jws_X509CertThumbprintS256 h1 = jws_X509CertThumbprintS256 h"
    by (simp_all add: h1_def split: prod.split option.split sum.split)
  have keep2:
    "jws_ContentType h2 = jws_ContentType h1" "jws_Critical h2 = jws_Critical h1"
    "jws_Jwk h2 = jws_Jwk h1" "jws_JwkSetURL h2 = jws_JwkSetURL h1"
    "jws_KeyID h2 = jws_KeyID h1" "jws_Type h2 = jws_Type h1"
    "jws_X509Url h2 = jws_X509Url h1" "jws_X509CertChain h2 = jws_X509CertChain h1"
    "jws_X509CertThumbprint h2 = jws_X509CertThumbprint h1" "jws_X509CertThumbprintS256 h2 = jws_X509CertThumbprintS256 h1"
    by (simp_all add: h2_def split: prod.split option.split sum.split)
  have keep3:
    "jws_Algorithm h3 = jws_Algorithm h2" "jws_Critical h3 = jws_Critical h2"
    "jws_Jwk h3 = jws_Jwk h2" "jws_JwkSetURL h3 = jws_JwkSetURL h2"
    "jws_KeyID h3 = jws_KeyID h2" "jws_Type h3 = jws_Type h2"
    "jws_X509Url h3 = jws_X509Url h2" "jws_X509CertChain h3 = jws_X509CertChain h2"
    "jws_X509CertThumbprint h3 = jws_X509CertThumbprint h2" "jws_X509CertThumbprintS256 h3 = jws_X509CertThumbprintS256 h2"
    by (simp_all add: h3_def split: prod.split option.split sum.split)
  have keep4:
    "jws_Algorithm h4 = jws_Algorithm h3" "jws_ContentType h4 = jws_ContentType h3"
    "jws_Critical h4 = jws_Critical h3" "jws_Jwk h4 = jws_Jwk h3"
    "jws_JwkSetURL h4 = jws_JwkSetURL h3" "jws_Type h4 = jws_Type h3"
    "jws_X509Url h4 = jws_X509Url h3" "jws_X509CertChain h4 = jws_X509CertChain h3"
    "jws_X509CertThumbprint h4 = jws_X509CertThumbprint h3" "jws_X509CertThumbprintS256 h4 = jws_X509CertThumbprintS256 h3"
    by (simp_all add: h4_def split: prod.split option.split sum.split)
  have keep5:
    "jws_Algorithm h5 = jws_Algorithm h4" "jws_ContentType h5 = jws_ContentType h4"
    "jws_Critical h5 = jws_Critical h4" "jws_Jwk h5 = jws_Jwk h4"
    "jws_JwkSetURL h5 = jws_JwkSetURL h4" "jws_KeyID h5 = jws_KeyID h4"
    "jws_X509Url h5 = jws_X509Url h4" "jws_X509CertChain h5 = jws_X509CertChain h4"
    "jws_X509CertThumbprint h5 = jws_X509CertThumbprint h4" "jws_X509CertThumbprintS256 h5 = jws_X509CertThumbprintS256 h4"
    by (simp_all add: h5_def split: prod.split option.split sum.split)
  have keep6:
    "jws_Algorithm h6 = jws_Algorithm h5" "jws_ContentType h6 = jws_ContentType h5"
    "jws_Critical h6 = jws_Critical h5" "jws_Jwk h6 = jws_Jwk h5"
    "jws_JwkSetURL h6 = jws_JwkSetURL h5" "jws_KeyID h6 = jws_KeyID h5"
    "jws_Type h6 = jws_Type h5" "jws_X509Url h6 = jws_X509Url h5"
    "jws_X509CertChain h6 = jws_X509CertChain h5" "jws_X509CertThumbprintS256 h6 = jws_X509CertThumbprintS256 h5"
    by (simp_all add: h6_def split: prod.split option.split sum.split)
  have keep7:
    "jws_Algorithm h7 = jws_Algorithm h6" "jws_ContentType h7 = jws_ContentType h6"
    "jws_Critical h7 = jws_Critical h6" "jws_Jwk h7 = jws_Jwk h6"
    "jws_JwkSetURL h7 = jws_JwkSetURL h6" "jws_KeyID h7 = jws_KeyID h6"
    "jws_Type h7 = jws_Type h6" "jws_X509Url h7 = jws_X509Url h6"
    "jws_X509CertChain h7 = jws_X509CertChain h6" "jws_X509CertThumbprint h7 = jws_X509CertThumbprint h6"
    by (simp_all add: h7_def split: prod.split option.split sum.split)
  have keep8:
    "jws_Algorithm h8 = jws_Algorithm h7" "jws_ContentType h8 = jws_ContentType h7"
    "jws_Jwk h8 = jws_Jwk h7" "jws_JwkSetURL h8 = jws_JwkSetURL h7"
    "jws_KeyID h8 = jws_KeyID h7" "jws_Type h8 = jws_Type h7"
    "jws_X509Url h8 = jws_X509Url h7" "jws_X509CertChain h8 = jws_X509CertChain h7"
    "jws_X509CertThumbprint h8 = jws_X509CertThumbprint h7" "jws_X509CertThumbprintS256 h8 = jws_X509CertThumbprintS256 h7"
    by (simp_all add: h8_def split: prod.split option.split sum.split)
  have keep9:
    "jws_Algorithm h9 = jws_Algorithm h8" "jws_ContentType h9 = jws_ContentType h8"
    "jws_Critical h9 = jws_Critical h8" "jws_Jwk h9 = jws_Jwk h8"
    "jws_JwkSetURL h9 = jws_JwkSetURL h8" "jws_KeyID h9 = jws_KeyID h8"
    "jws_Type h9 = jws_Type h8" "jws_X509Url h9 = jws_X509Url h8"
    "jws_X509CertThumbprint h9 = jws_X509CertThumbprint h8" "jws_X509CertThumbprintS256 h9 = jws_X509CertThumbprintS256 h8"
    by (simp_all add: h9_def split: prod.split option.split sum.split)
  have keep10:
    "jws_Algorithm h10 = jws_Algorithm h9" "jws_ContentType h10 = jws_ContentType h9"
    "jws_Critical h10 = jws_Critical h9" "jws_Jwk h10 = jws_Jwk h9"
    "jws_KeyID h10 = jws_KeyID h9" "jws_Type h10 = jws_Type h9"
    "jws_X509Url h10 = jws_X509Url h9" "jws_X509CertChain h10 = jws_X509CertChain h9"
    "jws_X509CertThumbprint h10 = jws_X509CertThumbprint h9" "jws_X509CertThumbprintS256 h10 = jws_X509CertThumbprintS256 h9"
    by (simp_all add: h10_def split: prod.split option.split sum.split)
  have keep11:
    "jws_Algorithm h11 = jws_Algorithm h10" "jws_ContentType h11 = jws_ContentType h10"
    "jws_Critical h11 = jws_Critical h10" "jws_Jwk h11 = jws_Jwk h10"
    "jws_JwkSetURL h11 = jws_JwkSetURL h10" "jws_KeyID h11 = jws_KeyID h10"
    "jws_Type h11 = jws_Type h10" "jws_X509CertChain h11 = jws_X509CertChain h10"
    "jws_X509CertThumbprint h11 = jws_X509CertThumbprint h10" "jws_X509CertThumbprintS256 h11 = jws_X509CertThumbprintS256 h10"
    by (simp_all add: h11_def split: prod.split option.split sum.split)
  have crit7: "jws_Critical h7 = jws_Critical h"
    by (simp add: keep7 keep6 keep5 keep4 keep3 keep2 keep1)
  have crit: "jws_Critical h8
      = (case gss m ''crit'' of (v, Some err) \<Rightarrow> v | (v, None) \<Rightarrow> jws_Critical h)"
    by (simp add: h8_def crit7 split: prod.split option.split)
  have x5c8: "jws_X509CertChain h8 = jws_X509CertChain h"
    by (simp add: keep8 keep7 keep6 keep5 keep4 keep3 keep2 keep1)
  have x5c: "jws_X509CertChain h9
      = (case gss m ''x5c'' of (v, Some err) \<Rightarrow> v | (v, None) \<Rightarrow> jws_X509CertChain h)"
    by (simp add: h9_def x5c8 split: prod.split option.split)
  have alg: "snd (gs m ''alg'') \<noteq> None \<and> jws_Algorithm h = '''' \<longrightarrow> jws_Algorithm h2 = NoSignature"
    by (auto simp: h2_def h1_def split: prod.split option.split)
  have jku: "snd (gs m ''jku'') \<noteq> None \<longrightarrow> jws_JwkSetURL h10 = jws_JwkSetURL h9"
    by (auto simp: h10_def split: prod.split option.split)
  have x5u: "snd (gs m ''x5u'') \<noteq> None \<longrightarrow> jws_X509Url h11 = jws_X509Url h10"
    by (auto simp: h11_def split: prod.split option.split)
  have cty: "jws_ContentType h3 = fst (gs m ''cty'')" by (simp add: h3_def)
  have kid: "jws_KeyID h4 = fst (gs m ''kid'')" by (simp add: h4_def)
  have typ5: "jws_Type h5 = fst (gs m ''typ'')" by (simp add: h5_def)
  have x5t: "jws_X509CertThumbprint h6 = fst (gs m ''x5t'')" by (simp add: h6_def)
  have s256: "jws_X509CertThumbprintS256 h7 = fst (gs m ''x5t#256'')" by (simp add: h7_def)
  show ?thesis
    unfolding run fst_conv snd_conv
    using alg jku x5u
    by (simp add: keep11 keep10 keep9 keep8 keep7 keep6 keep5 keep4 keep3 keep2 keep1
        crit x5c cty kid typ5 x5t s256)
qed

theorem Construct_stores_crit_x5c_only_on_error_witness:
  "Hmap_GetStringSlice Construct_example ''crit'' = (Some [''exp''], None) \<and>
   Hmap_GetStringSlice Construct_example ''x5c'' = (Some [''MIIB''], None) \<and>
   snd (Hmap_GetString Construct_example ''alg'') \<noteq> None \<and>
   snd (Hmap_GetString Construct_example ''jku'') \<noteq> None \<and>
   snd (Hmap_GetString Construct_example ''x5u'') \<noteq> None \<and>
   (let r = jws_Construct Hmap_GetString Hmap_GetStringSlice (\<lambda>s. Inr (URL s))
              jws_zero_EssentialHeader Construct_example
    in snd r = None \<and> jws_Critical (fst r) = None \<and> jws_X509CertChain (fst r) = None \<and>
       jws_Algorithm (fst r) = NoSignature \<and> jws_KeyID (fst r) = ''k1'' \<and>
       jws_ContentType (fst r) = [] \<and> jws_Type (fst r) = [] \<and>
       jws_X509CertThumbprint (fst r) = [] \<and> jws_X509CertThumbprintS256 (fst r) = [] \<and>
       jws_Jwk (fst r) = None \<and> jws_JwkSetURL (fst r) = None \<and> jws_X509Url (fst r) = None)"
  using Construct_stores_crit_x5c_only_on_error
    [of Hmap_GetString Hmap_GetStringSlice "\<lambda>s. Inr (URL s)" jws_zero_EssentialHeader
      Construct_example]
  by (simp add: Hmap_GetString_def Hmap_GetStringSlice_def Construct_example_def
      jws_zero_EssentialHeader_def Let_def)

section \<open>Properties of Decrypt\<close>

subsection \<open>How the loop and the stages unfold\<close>

lemma Decrypt_recipients_skip:
  "skipped alg r \<Longrightarrow>
   Decrypt_recipients E alg key h cipher keysize iv ct tag aad pt (r # rest) =
   Decrypt_recipients E alg key h cipher keysize iv ct tag aad pt rest"
  by (auto simp: skipped_def split: option.splits)

lemma Decrypt_recipients_nil_header:
  "Recipient_Header r = None \<Longrightarrow>
   Decrypt_recipients E alg key h cipher keysize iv ct tag aad pt (r # rest) = Inl NilDereference"
  by simp

lemma Decrypt_recipients_try:
  "Recipient_Header r = Some rh \<Longrightarrow> jwe_Algorithm (jwe_Essential rh) = alg \<Longrightarrow>
   jwe_Header_Merge (Some h) (Some rh) = Inr h2 \<Longrightarrow>
   Decrypt_recipients E alg key h cipher keysize iv ct tag aad pt (r # rest) =
     (case BuildKeyDecrypter E (jwe_Algorithm (jwe_Essential h2)) h2 key keysize of
        Inl err \<Rightarrow> Decrypt_recipients E alg key h cipher keysize iv ct tag aad pt rest
      | Inr k \<Rightarrow>
          (case k (EncryptedKey r) of
             Inl err \<Rightarrow> Inl (ErrorString ''failed to decrypt key'')
           | Inr cek \<Rightarrow>
               (case decrypt cipher cek iv ct tag aad of
                  (p, None) \<Rightarrow> Inr p
                | (p, Some err) \<Rightarrow>
                    Decrypt_recipients E alg key h cipher keysize iv ct tag aad p rest)))"
  by (simp add: jwe_Header_Copy_New)

declare Decrypt_recipients.simps(2) [simp del]

lemma Decrypt_recipients_filter:
  "Decrypt_recipients E alg key h cipher keysize iv ct tag aad pt rs =
   Decrypt_recipients E alg key h cipher keysize iv ct tag aad pt
     (filter (\<lambda>r. \<not> skipped alg r) rs)"
proof (induction rs arbitrary: pt)
  case Nil
  show ?case by simp
next
  case (Cons r rs)
  show ?case
  proof (cases "skipped alg r")
    case True
    then show ?thesis by (simp add: Decrypt_recipients_skip Cons.IH)
  next
    case False
    show ?thesis
    proof (cases "Recipient_Header r")
      case None
      then show ?thesis using False by (simp add: Decrypt_recipients_nil_header)
    next
      case (Some rh)
      with False have alg: "jwe_Algorithm (jwe_Essential rh) = alg"
        by (simp add: skipped_def)
      obtain h2 where m: "jwe_Header_Merge (Some h) (Some rh) = Inr h2"
        by (simp add: jwe_Header_Merge_Some)
      show ?thesis
        using False
        by (simp add: Decrypt_recipients_try [OF Some alg m] Cons.IH [symmetric]
            split: sum.split prod.split option.split)
    qed
  qed
qed

lemma Decrypt_recipients_cong:
  assumes kd: "BuildKeyDecrypter E' = BuildKeyDecrypter E"
    and dec: "\<And>cek. decrypt c' cek iv ct tag aad = decrypt c cek iv ct tag aad"
  shows "Decrypt_recipients E' alg key h c' keysize iv ct tag aad pt rs =
         Decrypt_recipients E alg key h c keysize iv ct tag aad pt rs"
proof (induction rs arbitrary: pt)
  case Nil
  show ?case by simp
next
  case (Cons r rs)
  show ?case
  proof (cases "Recipient_Header r")
    case None
    then show ?thesis by (simp add: Decrypt_recipients_nil_header)
  next
    case (Some rh)
    show ?thesis
    proof (cases "jwe_Algorithm (jwe_Essential rh) = alg")
      case False
      with Some have "skipped alg r" by (simp add: skipped_def)
      then show ?thesis by (simp add: Decrypt_recipients_skip Cons.IH)
    next
      case True
      obtain h2 where m: "jwe_Header_Merge (Some h) (Some rh) = Inr h2"
        by (simp add: jwe_Header_Merge_Some)
      show ?thesis
        by (simp add: Decrypt_recipients_try [OF Some True m] kd dec Cons.IH
            split: sum.split prod.split option.split)
    qed
  qed
qed

lemma Decrypt_flate_cong:
  assumes a: "flate_NewWriter E' = flate_NewWriter E"
    and b: "flate_Write E' = flate_Write E"
    and c: "flate_Close E' = flate_Close E"
  shows "Decrypt_flate E' p = Decrypt_flate E p"
  unfolding Decrypt_flate_def a b c by (rule refl)

lemma Decrypt_unfold:
  assumes "Recipients m \<noteq> []"
    and "ProtectedHeader m = Some protected"
    and "jwe_enc_Header protected = Some ph"
    and "UnprotectedHeader m = Some un"
    and "jwe_Header_Merge (Some ph) (Some un) = Inr h"
    and "Base64Encode E (AuthenticatedData m) = Inr aad"
    and "BuildContentCipher E (jwe_ContentEncryption (jwe_Essential ph)) = Inr cipher"
  shows "Decrypt E m alg key =
     (case Decrypt_recipients E alg key h cipher (KeySize cipher) (InitializationVector m)
             (CipherText m) (Tag m) aad None (Recipients m) of
        Inl err \<Rightarrow> Inl err
      | Inr None \<Rightarrow> Inl (ErrorString ''failed to find matching recipient to decrypt key'')
      | Inr (Some plaintext) \<Rightarrow>
          if jwe_Compression (jwe_Essential h) = Deflate then Decrypt_flate E plaintext
          else Inr plaintext)"
  using assms by (simp add: Decrypt_def jwe_Header_Copy_New)

lemma Decrypt_recipients_with_aad:
  "Decrypt_recipients
     (E\<lparr>BuildContentCipher := (\<lambda>enc. map_sum id (with_aad a) (BuildContentCipher E enc))\<rparr>)
     alg key h (with_aad a c) (KeySize (with_aad a c)) iv ct tag a pt rs
   = Decrypt_recipients E alg key h c (KeySize c) iv ct tag a pt rs"
proof -
  have k: "KeySize (with_aad a c) = KeySize c" by (simp add: with_aad_def)
  show ?thesis unfolding k by (rule Decrypt_recipients_cong) (simp_all add: with_aad_def)
qed

lemma Decrypt_flate_with_aad:
  "Decrypt_flate (E\<lparr>BuildContentCipher := f\<rparr>) p = Decrypt_flate E p"
  by (rule Decrypt_flate_cong) simp_all

lemma Decrypt_no_recipients:
  "Recipients m = [] \<Longrightarrow>
   Decrypt E m alg key = Inl (ErrorString ''no recipients, can not proceed with decrypt'')"
  by (simp add: Decrypt_def)

lemma Decrypt_nil_protected:
  "Recipients m \<noteq> [] \<Longrightarrow> ProtectedHeader m = None \<Longrightarrow> Decrypt E m alg key = Inl NilDereference"
  by (simp add: Decrypt_def)

lemma Decrypt_nil_protected_header:
  "Recipients m \<noteq> [] \<Longrightarrow> ProtectedHeader m = Some pr \<Longrightarrow> jwe_enc_Header pr = None \<Longrightarrow>
   Decrypt E m alg key = Inl NilDereference"
  by (simp add: Decrypt_def)

lemma Decrypt_nil_unprotected:
  "Recipients m \<noteq> [] \<Longrightarrow> ProtectedHeader m = Some pr \<Longrightarrow> jwe_enc_Header pr = Some ph \<Longrightarrow>
   UnprotectedHeader m = None \<Longrightarrow>
   Decrypt E m alg key = Inl (ErrorString ''merge target is nil'')"
  by (simp add: Decrypt_def jwe_Header_Copy_New jwe_Header_Merge_def)

lemma Decrypt_Base64Encode_error:
  "Recipients m \<noteq> [] \<Longrightarrow> ProtectedHeader m = Some pr \<Longrightarrow> jwe_enc_Header pr = Some ph \<Longrightarrow>
   UnprotectedHeader m = Some un \<Longrightarrow> Base64Encode E (AuthenticatedData m) = Inl err \<Longrightarrow>
   Decrypt E m alg key = Inl err"
  by (simp add: Decrypt_def jwe_Header_Copy_New jwe_Header_Merge_Some)

lemma Decrypt_unsupported_cipher:
  "Recipients m \<noteq> [] \<Longrightarrow> ProtectedHeader m = Some pr \<Longrightarrow> jwe_enc_Header pr = Some ph \<Longrightarrow>
   UnprotectedHeader m = Some un \<Longrightarrow> Base64Encode E (AuthenticatedData m) = Inr aad \<Longrightarrow>
   BuildContentCipher E (jwe_ContentEncryption (jwe_Essential ph)) = Inl err \<Longrightarrow>
   Decrypt E m alg key =
     Inl (ErrorString (''unsupported content cipher algorithm '' @ [CHR 0x27]
            @ jwe_ContentEncryption (jwe_Essential ph) @ [CHR 0x27]))"
  by (simp add: Decrypt_def jwe_Header_Copy_New jwe_Header_Merge_Some)

lemmas example_defs =
  Decrypt_def Decrypt_recipients.simps Decrypt_flate_def test_env_def message_of_def
  header_with_def recipient_for_def tag_cipher_def aad_echo_cipher_def prefix_KeyDecrypter_def
  buffer_Base64Encode_def b64url_char_def b64url_alphabet_def
  jwe_NewHeader_def jwe_zero_EssentialHeader_def jwe_Header_Copy_Some jwe_Header_Merge_Some
  jwe_EssentialHeader_Merge_eq Deflate_def
  echo_message_def inherit_message_def two_recipients_def zip_message_def

subsection \<open>The AAD\<close>

text \<open>
  Claim C2. The claim has \<^verbatim>\<open>Decrypt\<close> hand the content cipher, as AAD, the base64url
  encoding of the protected header's wire bytes. On the code (line 745) the AAD is the
  base64url encoding of the \<^verbatim>\<open>AuthenticatedData\<close> buffer of the message. In
  \<open>echo_message\<close> the cipher returns the AAD it is handed: \<^verbatim>\<open>Decrypt\<close> returns the
  encoding of the AAD buffer \<^verbatim>\<open>abc\<close>, which is not the encoding of the protected header's
  \<^verbatim>\<open>Source\<close>.
\<close>

theorem Decrypt_AAD_counterexample:
  "Decrypt test_env echo_message ''test-prefix'' (IBytes ''K2'') = Inr ''YWJj'' \<and>
   buffer_Base64Encode (AuthenticatedData echo_message) = Inr ''YWJj'' \<and>
   buffer_Base64Encode (jwe_enc_Source (the (ProtectedHeader echo_message)))
     = Inr ''eyJhbGciOiJ0ZXN0LXByZWZpeCIsImVuYyI6InRlc3QtZWNoby1hYWQifQ''"
  by (simp add: example_defs)

text \<open>
  Claim C2, as amended. For every message and all collaborators, the only AAD \<^verbatim>\<open>Decrypt\<close>
  hands to the content cipher is the base64url encoding \<open>a\<close> of the message's
  \<^verbatim>\<open>AuthenticatedData\<close> buffer: replacing every content cipher by one that decrypts under \<open>a\<close>
  whatever AAD it is handed changes no result. The \<^verbatim>\<open>Source\<close> bytes of the protected
  header play no part: replacing them changes no result.
\<close>

theorem Decrypt_AAD_is_AuthenticatedData:
  "(Base64Encode E (AuthenticatedData m) = Inr a \<longrightarrow>
      Decrypt (E\<lparr>BuildContentCipher := (\<lambda>enc. map_sum id (with_aad a) (BuildContentCipher E enc))\<rparr>)
        m alg key = Decrypt E m alg key) \<and>
   (ProtectedHeader m = Some protected \<longrightarrow>
      Decrypt E (m\<lparr>ProtectedHeader := Some (protected\<lparr>jwe_enc_Source := s\<rparr>)\<rparr>) alg key
        = Decrypt E m alg key)"
proof (intro conjI impI)
  assume a: "Base64Encode E (AuthenticatedData m) = Inr a"
  let ?f = "\<lambda>enc. map_sum id (with_aad a) (BuildContentCipher E enc)"
  let ?E = "E\<lparr>BuildContentCipher := ?f\<rparr>"
  have a': "Base64Encode ?E (AuthenticatedData m) = Inr a" using a by simp
  show "Decrypt ?E m alg key = Decrypt E m alg key"
  proof (cases "Recipients m = []")
    case True
    then show ?thesis by (simp add: Decrypt_no_recipients)
  next
    case rs: False
    show ?thesis
    proof (cases "ProtectedHeader m")
      case None
      with rs show ?thesis by (simp add: Decrypt_nil_protected)
    next
      case p: (Some pr)
      show ?thesis
      proof (cases "jwe_enc_Header pr")
        case None
        with rs p show ?thesis by (simp add: Decrypt_nil_protected_header)
      next
        case ph: (Some ph)
        show ?thesis
        proof (cases "UnprotectedHeader m")
          case None
          with rs p ph show ?thesis by (simp add: Decrypt_nil_unprotected)
        next
          case un: (Some un)
          obtain h where h: "jwe_Header_Merge (Some ph) (Some un) = Inr h"
            by (simp add: jwe_Header_Merge_Some)
          show ?thesis
          proof (cases "BuildContentCipher E (jwe_ContentEncryption (jwe_Essential ph))")
            case (Inl err)
            then have "BuildContentCipher ?E (jwe_ContentEncryption (jwe_Essential ph)) = Inl err"
              by simp
            from Decrypt_unsupported_cipher [OF rs p ph un a' this]
              Decrypt_unsupported_cipher [OF rs p ph un a Inl]
            show ?thesis by simp
          next
            case (Inr c)
            then have 2: "BuildContentCipher ?E (jwe_ContentEncryption (jwe_Essential ph))
                = Inr (with_aad a c)"
              by simp
            show ?thesis
              unfolding Decrypt_unfold [OF rs p ph un h a' 2] Decrypt_unfold [OF rs p ph un h a Inr]
                Decrypt_recipients_with_aad Decrypt_flate_with_aad
              by (rule refl)
          qed
        qed
      qed
    qed
  qed
next
  assume "ProtectedHeader m = Some protected"
  then show "Decrypt E (m\<lparr>ProtectedHeader := Some (protected\<lparr>jwe_enc_Source := s\<rparr>)\<rparr>) alg key
      = Decrypt E m alg key"
    by (simp add: Decrypt_def cong: option.case_cong sum.case_cong prod.case_cong)
qed

theorem Decrypt_AAD_is_AuthenticatedData_witness:
  "Base64Encode test_env (AuthenticatedData echo_message) = Inr ''YWJj'' \<and>
   Decrypt
     (test_env\<lparr>BuildContentCipher :=
        (\<lambda>enc. map_sum id (with_aad ''YWJj'') (BuildContentCipher test_env enc))\<rparr>)
     echo_message ''test-prefix'' (IBytes ''K2'') = Inr ''YWJj'' \<and>
   ProtectedHeader echo_message
     = Some \<lparr>jwe_enc_Header = Some (header_with ''test-prefix'' ''test-echo-aad'' []),
             jwe_enc_Source = ''{\"alg\":\"test-prefix\",\"enc\":\"test-echo-aad\"}''\<rparr> \<and>
   Decrypt test_env
     (echo_message\<lparr>ProtectedHeader :=
        Some \<lparr>jwe_enc_Header = Some (header_with ''test-prefix'' ''test-echo-aad'' []),
              jwe_enc_Source = ''{}''\<rparr>\<rparr>)
     ''test-prefix'' (IBytes ''K2'') = Inr ''YWJj''"
proof -
  have a: "Base64Encode test_env (AuthenticatedData echo_message) = Inr ''YWJj''"
    by (simp add: example_defs)
  have p: "ProtectedHeader echo_message
     = Some \<lparr>jwe_enc_Header = Some (header_with ''test-prefix'' ''test-echo-aad'' []),
             jwe_enc_Source = ''{\"alg\":\"test-prefix\",\"enc\":\"test-echo-aad\"}''\<rparr>"
    by (simp add: echo_message_def message_of_def)
  have d: "Decrypt test_env echo_message ''test-prefix'' (IBytes ''K2'') = Inr ''YWJj''"
    by (simp add: example_defs)
  from Decrypt_AAD_is_AuthenticatedData
    [of test_env echo_message "''YWJj''" "''test-prefix''" "IBytes ''K2''"
      "\<lparr>jwe_enc_Header = Some (header_with ''test-prefix'' ''test-echo-aad'' []),
        jwe_enc_Source = ''{\"alg\":\"test-prefix\",\"enc\":\"test-echo-aad\"}''\<rparr>" "''{}''"]
    a p d
  show ?thesis by simp
qed

subsection \<open>A wrapped key that does not decrypt\<close>

text \<open>
  Claim C3. The claim has a recipient whose wrapped CEK does not decrypt skipped, the loop
  going on to the next one. On the code (line 787) a failing \<^verbatim>\<open>KeyDecrypt\<close> returns from
  \<^verbatim>\<open>Decrypt\<close>, the \<^verbatim>\<open>continue\<close> after it is dead. With two recipients under the caller's
  algorithm, the first wrapped for another key and the second for the caller's,
  \<^verbatim>\<open>Decrypt\<close> fails; with the same two recipients in the other order it returns the content.
\<close>

theorem Decrypt_aborts_on_first_KeyDecrypt_failure:
  "Decrypt test_env (two_recipients ''K1cek0'' ''K2cek0'') ''test-prefix'' (IBytes ''K2'')
     = Inl (ErrorString ''failed to decrypt key'') \<and>
   Decrypt test_env (two_recipients ''K2cek0'' ''K1cek0'') ''test-prefix'' (IBytes ''K2'')
     = Inr ''hello''"
  by (simp add: example_defs)

text \<open>The same for every message: once a recipient under the caller's algorithm has a
  key decrypter that fails on its wrapped key, the loop returns the error, whatever
  recipients follow.\<close>

lemma Decrypt_recipients_KeyDecrypt_failure:
  assumes "Recipient_Header r = Some rh" and "jwe_Algorithm (jwe_Essential rh) = alg"
    and "jwe_Header_Merge (Some h) (Some rh) = Inr h2"
    and "BuildKeyDecrypter E (jwe_Algorithm (jwe_Essential h2)) h2 key ks = Inr k"
    and "k (EncryptedKey r) = Inl err"
  shows "Decrypt_recipients E alg key h c ks iv ct tag aad pt (r # rest)
     = Inl (ErrorString ''failed to decrypt key'')"
  using assms by (simp add: Decrypt_recipients_try [OF assms(1-3)])

subsection \<open>Compression\<close>

text \<open>
  Claim C4. The claim has \<^verbatim>\<open>Decrypt\<close> return the inflation of the recovered plaintext when
  the header says \<^verbatim>\<open>DEF\<close>. On the code (lines 803-818) the plaintext is written to a
  \<^verbatim>\<open>flate.Writer\<close>, the compressor. The content of the message is the deflate stream of
  \<^verbatim>\<open>hello\<close>; \<^verbatim>\<open>Decrypt\<close> returns the deflate stream of that stream, not \<^verbatim>\<open>hello\<close>.
\<close>

theorem Decrypt_deflates_the_plaintext:
  "stored_block ''hello'' = Inr (projr (stored_block ''hello'')) \<and>
   Decrypt test_env (zip_message (projr (stored_block ''hello''))) ''test-prefix'' (IBytes ''K2'')
     = stored_block (projr (stored_block ''hello'')) \<and>
   Decrypt test_env (zip_message (projr (stored_block ''hello''))) ''test-prefix'' (IBytes ''K2'')
     \<noteq> Inr ''hello''"
  by (simp add: example_defs stored_block_def)

text \<open>The same for every message that reaches the compression stage: the result is what
  the flate writer produces from the plaintext.\<close>

lemma Decrypt_Deflate_is_flate_Writer:
  assumes "Recipients m \<noteq> []"
    and "ProtectedHeader m = Some protected"
    and "jwe_enc_Header protected = Some ph"
    and "UnprotectedHeader m = Some un"
    and "jwe_Header_Merge (Some ph) (Some un) = Inr h"
    and "Base64Encode E (AuthenticatedData m) = Inr aad"
    and "BuildContentCipher E (jwe_ContentEncryption (jwe_Essential ph)) = Inr cipher"
    and "Decrypt_recipients E alg key h cipher (KeySize cipher) (InitializationVector m)
           (CipherText m) (Tag m) aad None (Recipients m) = Inr (Some plaintext)"
    and "jwe_Compression (jwe_Essential h) = Deflate"
  shows "Decrypt E m alg key = Decrypt_flate E plaintext"
  using assms(8,9) by (simp add: Decrypt_unfold [OF assms(1-7)])

subsection \<open>Which recipients are skipped\<close>

text \<open>
  Claim C5. The claim has a recipient skipped exactly when its effective algorithm, the
  algorithm of the merge of protected, unprotected and recipient header, differs from the
  caller's. On the code (line 762) the test reads the recipient's own header. In
  \<open>inherit_message []\<close> the algorithm stands in the protected header only: the effective
  algorithm of the recipient is the caller's, the recipient is skipped all the same and
  \<^verbatim>\<open>Decrypt\<close> finds no recipient; with the algorithm in the recipient's own header the same
  message decrypts.
\<close>

theorem Decrypt_skip_counterexample:
  "spec_effective_algorithm (inherit_message []) (recipient_for [] ''K2cek0'') = Inr ''test-prefix'' \<and>
   Recipients (inherit_message []) = [recipient_for [] ''K2cek0''] \<and>
   Decrypt test_env (inherit_message []) ''test-prefix'' (IBytes ''K2'')
     = Inl (ErrorString ''failed to find matching recipient to decrypt key'') \<and>
   Decrypt test_env (inherit_message ''test-prefix'') ''test-prefix'' (IBytes ''K2'') = Inr ''hello''"
  by (simp add: example_defs spec_effective_algorithm_def)

text \<open>
  Claim C5, as amended. In the recipient loop a recipient is skipped exactly when the
  algorithm of its own header differs from the caller's: the loop over the recipients is the
  loop over those not skipped, whatever the merged headers say, and a recipient whose own
  algorithm is the caller's is tried: the key decrypter is built from the merge of the base
  header with its header, and when that unwraps the key and the content cipher accepts, the
  loop ends with that plaintext.
\<close>

theorem Decrypt_recipients_skips_on_own_algorithm:
  "Decrypt_recipients E alg key h c ks iv ct tag aad pt rs
     = Decrypt_recipients E alg key h c ks iv ct tag aad pt (filter (\<lambda>r. \<not> skipped alg r) rs) \<and>
   (Recipient_Header r = Some rh \<and> jwe_Algorithm (jwe_Essential rh) = alg \<and>
    jwe_Header_Merge (Some h) (Some rh) = Inr h2 \<and>
    BuildKeyDecrypter E (jwe_Algorithm (jwe_Essential h2)) h2 key ks = Inr k \<and>
    k (EncryptedKey r) = Inr cek \<and> decrypt c cek iv ct tag aad = (p, None) \<longrightarrow>
    Decrypt_recipients E alg key h c ks iv ct tag aad pt (r # rest) = Inr p)"
proof (intro conjI impI)
  show "Decrypt_recipients E alg key h c ks iv ct tag aad pt rs
     = Decrypt_recipients E alg key h c ks iv ct tag aad pt (filter (\<lambda>r. \<not> skipped alg r) rs)"
    by (rule Decrypt_recipients_filter)
next
  assume a: "Recipient_Header r = Some rh \<and> jwe_Algorithm (jwe_Essential rh) = alg \<and>
    jwe_Header_Merge (Some h) (Some rh) = Inr h2 \<and>
    BuildKeyDecrypter E (jwe_Algorithm (jwe_Essential h2)) h2 key ks = Inr k \<and>
    k (EncryptedKey r) = Inr cek \<and> decrypt c cek iv ct tag aad = (p, None)"
  then have 1: "Recipient_Header r = Some rh" and 2: "jwe_Algorithm (jwe_Essential rh) = alg"
    and 3: "jwe_Header_Merge (Some h) (Some rh) = Inr h2"
    by blast+
  have "Decrypt_recipients E alg key h c ks iv ct tag aad pt (r # rest) =
     (case BuildKeyDecrypter E (jwe_Algorithm (jwe_Essential h2)) h2 key ks of
        Inl err \<Rightarrow> Decrypt_recipients E alg key h c ks iv ct tag aad pt rest
      | Inr k \<Rightarrow>
          (case k (EncryptedKey r) of
             Inl err \<Rightarrow> Inl (ErrorString ''failed to decrypt key'')
           | Inr cek \<Rightarrow>
               (case decrypt c cek iv ct tag aad of
                  (p, None) \<Rightarrow> Inr p
                | (p, Some err) \<Rightarrow>
                    Decrypt_recipients E alg key h c ks iv ct tag aad p rest)))"
    by (rule Decrypt_recipients_try [OF 1 2 3])
  with a show "Decrypt_recipients E alg key h c ks iv ct tag aad pt (r # rest) = Inr p"
    by simp
qed

theorem Decrypt_recipients_skips_on_own_algorithm_witness:
  "filter (\<lambda>r. \<not> skipped ''test-prefix'' r)
     [recipient_for [] ''K2cek0'', recipient_for ''test-prefix'' ''K2cek0'']
     = [recipient_for ''test-prefix'' ''K2cek0''] \<and>
   Decrypt_recipients test_env ''test-prefix'' (IBytes ''K2'')
     (header_with ''test-prefix'' ''test-tag'' []) tag_cipher 16 ''iv'' ''hello'' ''cek0'' [] None
     [recipient_for [] ''K2cek0'', recipient_for ''test-prefix'' ''K2cek0'']
     = Inr (Some ''hello'') \<and>
   Recipient_Header (recipient_for ''test-prefix'' ''K2cek0'')
     = Some (header_with ''test-prefix'' [] []) \<and>
   jwe_Algorithm (jwe_Essential (header_with ''test-prefix'' [] [])) = ''test-prefix'' \<and>
   jwe_Header_Merge (Some (header_with ''test-prefix'' ''test-tag'' []))
     (Some (header_with ''test-prefix'' [] []))
     = Inr (header_with ''test-prefix'' ''test-tag'' []) \<and>
   BuildKeyDecrypter test_env
     (jwe_Algorithm (jwe_Essential (header_with ''test-prefix'' ''test-tag'' [])))
     (header_with ''test-prefix'' ''test-tag'' []) (IBytes ''K2'') 16
     = Inr (prefix_KeyDecrypter (IBytes ''K2'')) \<and>
   prefix_KeyDecrypter (IBytes ''K2'') (EncryptedKey (recipient_for ''test-prefix'' ''K2cek0''))
     = Inr ''cek0'' \<and>
   decrypt tag_cipher ''cek0'' ''iv'' ''hello'' ''cek0'' [] = (Some ''hello'', None) \<and>
   Decrypt_recipients test_env ''test-prefix'' (IBytes ''K2'')
     (header_with ''test-prefix'' ''test-tag'' []) tag_cipher 16 ''iv'' ''hello'' ''cek0'' [] None
     [recipient_for ''test-prefix'' ''K2cek0'']
     = Inr (Some ''hello'')"
proof -
  have f: "filter (\<lambda>r. \<not> skipped ''test-prefix'' r)
     [recipient_for [] ''K2cek0'', recipient_for ''test-prefix'' ''K2cek0'']
     = [recipient_for ''test-prefix'' ''K2cek0'']"
    by (simp add: skipped_def recipient_for_def header_with_def jwe_zero_EssentialHeader_def)
  have r: "Recipient_Header (recipient_for ''test-prefix'' ''K2cek0'')
     = Some (header_with ''test-prefix'' [] [])"
    by (simp add: recipient_for_def)
  have a: "jwe_Algorithm (jwe_Essential (header_with ''test-prefix'' [] [])) = ''test-prefix''"
    by (simp add: header_with_def)
  have m: "jwe_Header_Merge (Some (header_with ''test-prefix'' ''test-tag'' []))
     (Some (header_with ''test-prefix'' [] []))
     = Inr (header_with ''test-prefix'' ''test-tag'' [])"
    by (simp add: jwe_Header_Merge_Some jwe_EssentialHeader_Merge_eq header_with_def
        jwe_NewHeader_def jwe_zero_EssentialHeader_def)
  have k: "BuildKeyDecrypter test_env
     (jwe_Algorithm (jwe_Essential (header_with ''test-prefix'' ''test-tag'' [])))
     (header_with ''test-prefix'' ''test-tag'' []) (IBytes ''K2'') 16
     = Inr (prefix_KeyDecrypter (IBytes ''K2''))"
    by (simp add: test_env_def header_with_def)
  have c: "prefix_KeyDecrypter (IBytes ''K2'')
     (EncryptedKey (recipient_for ''test-prefix'' ''K2cek0'')) = Inr ''cek0''"
    by (simp add: prefix_KeyDecrypter_def recipient_for_def)
  have d: "decrypt tag_cipher ''cek0'' ''iv'' ''hello'' ''cek0'' [] = (Some ''hello'', None)"
    by (simp add: tag_cipher_def)
  from Decrypt_recipients_skips_on_own_algorithm
    [of test_env "''test-prefix''" "IBytes ''K2''" "header_with ''test-prefix'' ''test-tag'' []"
      tag_cipher 16 "''iv''" "''hello''" "''cek0''" "[]" None
      "[recipient_for [] ''K2cek0'', recipient_for ''test-prefix'' ''K2cek0'']"
      "recipient_for ''test-prefix'' ''K2cek0''" "header_with ''test-prefix'' [] []"
      "header_with ''test-prefix'' ''test-tag'' []"
      "prefix_KeyDecrypter (IBytes ''K2'')" "''cek0''" "Some ''hello''" "[]"]
    r a m k c d
  show ?thesis
    unfolding f by simp
qed

section \<open>Properties of the encoded header\<close>

subsection \<open>The example, step by step\<close>







subsection \<open>Re-encoding a parsed header\<close>




end
